theory Spec2Isabelle
  imports Complex_Main "HOL-Library.Word" "HOL-Library.AList" "HOL-Library.Monad_Syntax"
begin

unbundle bit_operations_syntax

section \<open>Data model of the H.264 encoder pipeline\<close>

text \<open>
  The development embeds \<^verbatim>\<open>src/ac/android/h264encoder.cpp\<close>. Pointers to objects of
  the codec runtime are addresses (\<open>handle\<close>); a pointer that may be \<^verbatim>\<open>nullptr\<close> is a
  \<open>handle option\<close>. The C++ integer types are words of their width.
\<close>

type_synonym byte = "8 word"
type_synonym int32 = "32 word"
type_synonym uint32 = "32 word"
type_synonym handle = nat

text \<open>The enumeration \<^verbatim>\<open>MetadataBufferType\<close> and the integer each constant stands for.\<close>

datatype MetadataBufferType =
    kMetadataBufferTypeCameraSource
  | kMetadataBufferTypeGrallocSource
  | kMetadataBufferTypeANWBuffer
  | kMetadataBufferTypeNativeHandleSource
  | kMetadataBufferTypeInvalid

fun metadata_type_code :: "MetadataBufferType \<Rightarrow> int32" where
  "metadata_type_code kMetadataBufferTypeCameraSource = 0"
| "metadata_type_code kMetadataBufferTypeGrallocSource = 1"
| "metadata_type_code kMetadataBufferTypeANWBuffer = 2"
| "metadata_type_code kMetadataBufferTypeNativeHandleSource = 3"
| "metadata_type_code kMetadataBufferTypeInvalid = - 1"

definition kOMXColorFormatAndroidOpaque :: int32 where
  "kOMXColorFormatAndroidOpaque = 0x7F000789"

definition kOMXVideoIntraRefreshCyclic :: int32 where
  "kOMXVideoIntraRefreshCyclic = 0"

definition kOMXVideoControlRateConstant :: int32 where
  "kOMXVideoControlRateConstant = 2"

definition kAnyFramerate :: int32 where
  "kAnyFramerate = - 1"

definition kDefaultBitrate :: int32 where
  "kDefaultBitrate = 5000000"

definition kDefaultIFrameInterval :: int32 where
  "kDefaultIFrameInterval = 15"

text \<open>The enumeration \<^verbatim>\<open>AndroidMediaError\<close>: the status codes of the pull-read callback.\<close>

definition kAndroidMediaErrorBase :: int where
  "kAndroidMediaErrorBase = - 1000"

definition kAndroidMediaErrorNotConnected :: int where
  "kAndroidMediaErrorNotConnected = kAndroidMediaErrorBase - 1"

definition kAndroidMediaErrorBufferTooSmall :: int where
  "kAndroidMediaErrorBufferTooSmall = kAndroidMediaErrorBase - 9"

definition kAndroidMediaErrorEndOfStream :: int where
  "kAndroidMediaErrorEndOfStream = kAndroidMediaErrorBase - 11"

text \<open>The keys of the configuration message.\<close>

definition kFormatKeyMime :: string where "kFormatKeyMime = ''mime''"
definition kFormatKeyStoreMetaDataInBuffers :: string where
  "kFormatKeyStoreMetaDataInBuffers = ''store-metadata-in-buffers''"
definition kFormatKeyStoreMetaDataInBuffersOutput :: string where
  "kFormatKeyStoreMetaDataInBuffersOutput = ''store-metadata-in-buffers-output''"
definition kFormatKeyWidth :: string where "kFormatKeyWidth = ''width''"
definition kFormatKeyHeight :: string where "kFormatKeyHeight = ''height''"
definition kFormatKeyStride :: string where "kFormatKeyStride = ''stride''"
definition kFormatKeySliceHeight :: string where "kFormatKeySliceHeight = ''slice-height''"
definition kFormatKeyColorFormat :: string where "kFormatKeyColorFormat = ''color-format''"
definition kFormatKeyBitrate :: string where "kFormatKeyBitrate = ''bitrate''"
definition kFormatKeyBitrateMode :: string where "kFormatKeyBitrateMode = ''bitrate-mode''"
definition kFormatKeyFramerate :: string where "kFormatKeyFramerate = ''frame-rate''"
definition kFormatKeyIntraRefreshMode :: string where
  "kFormatKeyIntraRefreshMode = ''intra-refresh-mode''"
definition kFormatKeyIntraRefreshCIRMbs :: string where
  "kFormatKeyIntraRefreshCIRMbs = ''intra-refresh-CIR-mbs''"
definition kFormatKeyIFrameInterval :: string where
  "kFormatKeyIFrameInterval = ''i-frame-interval''"
definition kFormatKeyProfileIdc :: string where "kFormatKeyProfileIdc = ''profile-idc''"
definition kFormatKeyLevelIdc :: string where "kFormatKeyLevelIdc = ''level-idc''"
definition kFormatKeyConstraintSet :: string where
  "kFormatKeyConstraintSet = ''constraint-set''"
definition kFormatKeyPrependSpsPpstoIdrFrames :: string where
  "kFormatKeyPrependSpsPpstoIdrFrames = ''prepend-sps-pps-to-idr-frames''"
definition kH264MimeType :: string where "kH264MimeType = ''video/avc''"
definition kRawMimeType :: string where "kRawMimeType = ''video/raw''"

section \<open>Configuration, frame buffers and runtime objects\<close>

text \<open>
  Modelled from the spec: the declaration of \<^verbatim>\<open>video::BaseEncoder::Config\<close> is not among the
  sources. Its fields are the ones \<^verbatim>\<open>Configure\<close> reads, with the meaning of the spec's
  Encoder Configuration: width, height and bitrate are positive, the framerate is signed
  (a negative value lets the runtime decide), and 0 in the remaining fields means unset.
  The unsigned fields are read as \<^verbatim>\<open>unsigned int\<close>.
\<close>

record Config =
  width :: uint32
  height :: uint32
  bitrate :: uint32
  framerate :: int32
  profile_idc :: uint32
  level_idc :: uint32
  constraint_set :: uint32
  i_frame_interval :: uint32
  intra_refresh_mode :: uint32

type_synonym TimestampUs = "64 word"

text \<open>
  Modelled from the spec: \<^verbatim>\<open>video::Buffer\<close> (the spec's Frame Buffer) is an interface whose
  implementations are not among the sources. A buffer is identified by \<open>buffer_id\<close> (the
  identity of the shared object); \<open>NativeHandle\<close>, \<open>Length\<close> and \<open>Timestamp\<close> are what its
  accessors return, and \<open>Data\<close> is the memory that the pointer returned by
  \<^verbatim>\<open>Data()\<close> can be read at (the empty list for a null pointer).
\<close>

record Buffer =
  buffer_id :: nat
  NativeHandle :: "handle option"
  Length :: uint32
  Data :: "byte list"
  Timestamp :: TimestampUs

text \<open>The notifications of \<^verbatim>\<open>video::EncoderReport\<close>, in the order they are made.\<close>

datatype report_event =
    Started
  | Stopped
  | BeganFrame TimestampUs
  | FinishedFrame TimestampUs
  | ReceivedInputBuffer TimestampUs

text \<open>A configuration message of the runtime: keys with string or 32-bit values.\<close>

datatype message_value = StringValue string | Int32Value int32

type_synonym media_message = "(string \<times> message_value) list"

definition media_message_set_string :: "string \<Rightarrow> string \<Rightarrow> media_message \<Rightarrow> media_message" where
  "media_message_set_string k v m = AList.update k (StringValue v) m"

definition media_message_set_int32 :: "string \<Rightarrow> int32 \<Rightarrow> media_message \<Rightarrow> media_message" where
  "media_message_set_int32 k v m = AList.update k (Int32Value v) m"

text \<open>Meta data of the runtime: the keys this file uses, and their values.\<close>

datatype meta_key =
    MEDIA_META_DATA_KEY_TIME
  | MEDIA_META_DATA_KEY_IS_CODEC_CONFIG
  | MEDIA_META_DATA_KEY_MIME
  | MEDIA_META_DATA_KEY_COLOR_FORMAT
  | MEDIA_META_DATA_KEY_WIDTH
  | MEDIA_META_DATA_KEY_HEIGHT
  | MEDIA_META_DATA_KEY_STRIDE
  | MEDIA_META_DATA_KEY_SLICE_HEIGHT
  | MEDIA_META_DATA_KEY_FRAMERATE

datatype meta_value = CStringValue string | MetaInt32 int32 | MetaInt64 TimestampUs

type_synonym meta_data = "(meta_key \<times> meta_value) list"

definition media_meta_data_set_cstring :: "meta_key \<Rightarrow> string \<Rightarrow> meta_data \<Rightarrow> meta_data" where
  "media_meta_data_set_cstring k v m = AList.update k (CStringValue v) m"

definition media_meta_data_set_int32 :: "meta_key \<Rightarrow> int32 \<Rightarrow> meta_data \<Rightarrow> meta_data" where
  "media_meta_data_set_int32 k v m = AList.update k (MetaInt32 v) m"

text \<open>The payload that \<^verbatim>\<open>PackBuffer\<close> writes into a runtime buffer.\<close>

record VideoNativeMetadata =
  eType :: MetadataBufferType
  pBuffer :: "handle option"
  nFenceFd :: int32

datatype payload = Bytes "byte list" | NativeMetadata VideoNativeMetadata

text \<open>
  A runtime buffer (\<^verbatim>\<open>MediaBufferWrapper\<close>) as this file uses it: its payload, the time
  stamp in its meta data, and whether a return callback is registered.
\<close>

record MediaBuffer =
  mb_data :: payload
  mb_time :: "TimestampUs option"
  mb_return_callback :: bool

text \<open>
  What \<^verbatim>\<open>media_buffer_create\<close> returns when it succeeds: the address of the new buffer
  and the bytes its uninitialised memory happens to hold.
\<close>

type_synonym allocation = "handle \<times> (nat \<Rightarrow> byte)"

text \<open>An entry of \<^verbatim>\<open>m_pending_buffers\<close>: the producer's buffer and the runtime buffer packed from it.\<close>

record BufferItem =
  buffer :: Buffer
  media_buffer :: handle

text \<open>An encoded unit read from the runtime, and the copy \<^verbatim>\<open>MediaSourceBuffer\<close> makes of it.\<close>

record encoded_unit =
  unit_data :: "byte list"
  unit_meta :: "meta_data option"

record MediaSourceBuffer =
  msb_buffer :: "byte list"
  msb_timestamp :: TimestampUs

datatype delegate_call =
    OnBufferWithCodecConfig MediaSourceBuffer
  | OnBufferAvailable MediaSourceBuffer

text \<open>The calls into the runtime that change or release something, in the order they are made.\<close>

datatype runtime_call =
    MessageRelease handle
  | SourceRelease handle
  | MetaDataRelease handle
  | CodecSourceStart handle
  | CodecSourceStop handle
  | CodecSourceRead "handle option"
  | CodecSourceRequestIdrFrame handle
  | BufferRelease handle

datatype severity = Warning | Error

text \<open>
  The encoder object. A member \<^verbatim>\<open>x_\<close> of the class is the field \<open>m_x\<close> (\<open>m_report\<close> is the
  list of notifications the reporter has received, \<open>m_delegate\<close> says whether the weak
  reference to the delegate can still be locked). The remaining
  fields record what the object does to its surroundings: the calls into the runtime, the
  runtime's buffers, the status and buffer each callback handed back to the runtime, the
  producer buffers released, the calls to the delegate and the warnings and errors logged.
\<close>

record H264Encoder =
  m_report :: "report_event list"
  m_format :: "(handle \<times> media_message) option"
  m_source_format :: "(handle \<times> meta_data) option"
  m_encoder :: "handle option"
  m_running :: bool
  m_readout :: bool
  m_input_queue :: "Buffer list"
  m_start_time :: TimestampUs
  m_frame_count :: uint32
  m_config :: Config
  m_pending_buffers :: "BufferItem list"
  m_delegate :: bool
  runtime_calls :: "runtime_call list"
  media_buffers :: "handle \<rightharpoonup> MediaBuffer"
  callback_results :: "(int \<times> handle option) list"
  released :: "Buffer list"
  delegate_calls :: "delegate_call list"
  logged :: "(severity \<times> string) list"

definition AC_WARNING :: "string \<Rightarrow> H264Encoder \<Rightarrow> H264Encoder" where
  "AC_WARNING msg s = s\<lparr>logged := logged s @ [(Warning, msg)]\<rparr>"

definition AC_ERROR :: "string \<Rightarrow> H264Encoder \<Rightarrow> H264Encoder" where
  "AC_ERROR msg s = s\<lparr>logged := logged s @ [(Error, msg)]\<rparr>"

definition runtime :: "runtime_call \<Rightarrow> H264Encoder \<Rightarrow> H264Encoder" where
  "runtime c s = s\<lparr>runtime_calls := runtime_calls s @ [c]\<rparr>"

text \<open>
  Modelled from the spec: \<^verbatim>\<open>video::BufferQueue\<close> is not among the sources. It is a FIFO:
  \<open>Push\<close> always succeeds, \<open>Next\<close> removes and returns the oldest buffer, or nothing when
  none is available.
\<close>

definition BufferQueue_Push :: "Buffer \<Rightarrow> Buffer list \<Rightarrow> Buffer list" where
  "BufferQueue_Push b q = q @ [b]"

definition BufferQueue_Next :: "Buffer list \<Rightarrow> Buffer option \<times> Buffer list" where
  "BufferQueue_Next q = (case q of [] \<Rightarrow> (None, []) | b # rest \<Rightarrow> (Some b, rest))"

section \<open>Construction and configuration\<close>

text \<open>
  The constructor. \<open>default_config\<close> is the default-constructed \<^verbatim>\<open>Config\<close> that \<open>m_config\<close>
  starts as; \<open>delegate\<close> says whether a delegate is attached.
\<close>

definition new_H264Encoder :: "Config \<Rightarrow> bool \<Rightarrow> bool \<Rightarrow> H264Encoder" where
  "new_H264Encoder default_config delegate readout =
     \<lparr>m_report = [], m_format = None, m_source_format = None, m_encoder = None,
      m_running = False, m_readout = readout, m_input_queue = [], m_start_time = - 1,
      m_frame_count = 0, m_config = default_config, m_pending_buffers = [],
      m_delegate = delegate, runtime_calls = [], media_buffers = Map.empty,
      callback_results = [], released = [], delegate_calls = [], logged = []\<rparr>"

definition DefaultConfiguration :: "Config \<Rightarrow> Config" where
  "DefaultConfiguration config =
     config\<lparr>framerate := kAnyFramerate, bitrate := kDefaultBitrate,
            i_frame_interval := kDefaultIFrameInterval,
            intra_refresh_mode := kOMXVideoIntraRefreshCyclic\<rparr>"

text \<open>
  The macroblock count of the cyclic intra refresh, as \<^verbatim>\<open>Configure\<close> computes it in
  32-bit arithmetic.
\<close>

definition intra_refresh_mbs :: "Config \<Rightarrow> int32" where
  "intra_refresh_mbs config =
     (((width config + 15) div 16) * ((height config + 15) div 16) * 10) div 100"

text \<open>
  The configuration message. \<open>colorFormatOverride\<close> is the number read from the system
  property \<^verbatim>\<open>ubuntu.widi.colorformat\<close>, or \<open>None\<close> when \<^verbatim>\<open>property_get\<close> returns 0.
\<close>

definition build_format :: "bool \<Rightarrow> int32 option \<Rightarrow> Config \<Rightarrow> media_message" where
  "build_format readout colorFormatOverride config =
    (let metadata_type = metadata_type_code
           (if readout then kMetadataBufferTypeInvalid else kMetadataBufferTypeANWBuffer);
         format = media_message_set_string kFormatKeyMime kH264MimeType [];
         format = media_message_set_int32 kFormatKeyStoreMetaDataInBuffers metadata_type format;
         format = media_message_set_int32 kFormatKeyStoreMetaDataInBuffersOutput 0 format;
         format = media_message_set_int32 ''android._input-metadata-buffer-type'' metadata_type format;
         format = media_message_set_int32 ''android._store-metadata-in-buffers-output'' 0 format;
         format = media_message_set_int32 kFormatKeyWidth (width config) format;
         format = media_message_set_int32 kFormatKeyHeight (height config) format;
         format = media_message_set_int32 kFormatKeyStride (width config) format;
         format = media_message_set_int32 kFormatKeySliceHeight (height config) format;
         colorFormat = (case colorFormatOverride of
                          None \<Rightarrow> kOMXColorFormatAndroidOpaque
                        | Some override \<Rightarrow>
                            if 0 < sint override then override else kOMXColorFormatAndroidOpaque);
         format = media_message_set_int32 kFormatKeyColorFormat colorFormat format;
         format = media_message_set_int32 kFormatKeyBitrate (bitrate config) format;
         format = media_message_set_int32 kFormatKeyBitrateMode kOMXVideoControlRateConstant format;
         format = media_message_set_int32 kFormatKeyFramerate (framerate config) format;
         format = media_message_set_int32 kFormatKeyIntraRefreshMode 0 format;
         mbs = intra_refresh_mbs config;
         format = media_message_set_int32 kFormatKeyIntraRefreshCIRMbs mbs format;
         format = (if 0 < i_frame_interval config
                   then media_message_set_int32 kFormatKeyIFrameInterval (i_frame_interval config) format
                   else format);
         format = (if 0 < profile_idc config
                   then media_message_set_int32 kFormatKeyProfileIdc (profile_idc config) format
                   else format);
         format = (if 0 < level_idc config
                   then media_message_set_int32 kFormatKeyLevelIdc (level_idc config) format
                   else format);
         format = (if 0 < constraint_set config
                   then media_message_set_int32 kFormatKeyConstraintSet (constraint_set config) format
                   else format)
     in media_message_set_int32 kFormatKeyPrependSpsPpstoIdrFrames 1 format)"

definition build_source_format :: "Config \<Rightarrow> meta_data" where
  "build_source_format config =
    (let source_format = media_meta_data_set_cstring MEDIA_META_DATA_KEY_MIME kRawMimeType [];
         source_format = media_meta_data_set_int32 MEDIA_META_DATA_KEY_COLOR_FORMAT
                           kOMXColorFormatAndroidOpaque source_format;
         source_format = media_meta_data_set_int32 MEDIA_META_DATA_KEY_WIDTH (width config) source_format;
         source_format = media_meta_data_set_int32 MEDIA_META_DATA_KEY_HEIGHT (height config) source_format;
         source_format = media_meta_data_set_int32 MEDIA_META_DATA_KEY_STRIDE (width config) source_format;
         source_format = media_meta_data_set_int32 MEDIA_META_DATA_KEY_SLICE_HEIGHT (height config) source_format
     in media_meta_data_set_int32 MEDIA_META_DATA_KEY_FRAMERATE (framerate config) source_format)"

text \<open>
  What the runtime answers during one call of \<^verbatim>\<open>Configure\<close>: the objects created by
  \<^verbatim>\<open>media_message_create\<close>, \<^verbatim>\<open>media_source_create\<close>, \<^verbatim>\<open>media_meta_data_create\<close> and
  \<^verbatim>\<open>media_codec_source_create\<close> (\<open>None\<close> for a null pointer), and the color format property.
\<close>

record configure_env =
  message_created :: "handle option"
  colorformat_property :: "int32 option"
  source_created :: "handle option"
  meta_data_created :: "handle option"
  codec_source_created :: "handle option"

definition Configure :: "configure_env \<Rightarrow> Config \<Rightarrow> H264Encoder \<Rightarrow> bool \<times> H264Encoder" where
  "Configure env config s =
    (if m_encoder s \<noteq> None then (False, s)
     else case message_created env of
       None \<Rightarrow> (False, s)
     | Some format \<Rightarrow>
        (case source_created env of
           None \<Rightarrow>
             (False, runtime (MessageRelease format)
                       (AC_ERROR ''Failed to create media input source for encoder'' s))
         | Some source \<Rightarrow>
            (case meta_data_created env of
               None \<Rightarrow>
                 (False, runtime (SourceRelease source) (runtime (MessageRelease format)
                           (AC_ERROR ''Failed to create media meta data for encoder source'' s)))
             | Some source_format \<Rightarrow>
                (case codec_source_created env of
                   None \<Rightarrow>
                     (False, runtime (SourceRelease source) (runtime (MessageRelease format)
                               (runtime (MetaDataRelease source_format)
                                 (AC_ERROR ''Failed to create encoder instance''
                                   (s\<lparr>m_encoder := None\<rparr>)))))
                 | Some encoder \<Rightarrow>
                     (True, s\<lparr>m_encoder := Some encoder,
                              m_config := config,
                              m_format := Some (format,
                                build_format (m_readout s) (colorformat_property env) config),
                              m_source_format := Some (source_format, build_source_format config)\<rparr>)))))"

section \<open>Color conversion\<close>

text \<open>
  Plain \<^verbatim>\<open>char\<close> is signed on some of the platforms the package is built for and unsigned
  on the others, so the conversion is parameterised by it.
\<close>

datatype char_kind = SignedChar | UnsignedChar

definition char_value :: "char_kind \<Rightarrow> byte \<Rightarrow> int" where
  "char_value ck b = (case ck of SignedChar \<Rightarrow> sint b | UnsignedChar \<Rightarrow> uint b)"

text \<open>The conversion of an \<^verbatim>\<open>int\<close> to \<^verbatim>\<open>char\<close>, and arithmetic on \<^verbatim>\<open>unsigned int\<close>.\<close>

definition to_char :: "int \<Rightarrow> byte" where
  "to_char x = word_of_int x"

definition u32 :: "nat \<Rightarrow> nat" where
  "u32 n = n mod 2 ^ 32"

text \<open>
  Reading and writing memory through a pointer: an access outside the memory the pointer
  refers to is undefined behaviour, the value \<open>None\<close>.
\<close>

definition load :: "byte list \<Rightarrow> nat \<Rightarrow> byte option" where
  "load m a = (if a < length m then Some (m ! a) else None)"

definition store :: "byte list \<Rightarrow> nat \<Rightarrow> byte \<Rightarrow> byte list option" where
  "store m a v = (if a < length m then Some (m[a := v]) else None)"

text \<open>The local variables of \<^verbatim>\<open>rgb2yuv420p\<close> and the memory behind \<^verbatim>\<open>yuv420p\<close>.\<close>

record conversion =
  cv_i :: nat
  cv_ui :: nat
  cv_vi :: nat
  cv_s :: nat
  cv_yuv420p :: "byte list"

text \<open>
  The body of the inner loop, for row \<open>j\<close> and column \<open>k\<close>. The macros \<^verbatim>\<open>sR\<close>, \<^verbatim>\<open>sG\<close> and
  \<^verbatim>\<open>sB\<close> read the same three bytes in each of the three assignments; they are read once.
\<close>

definition convert_pixel :: "char_kind \<Rightarrow> byte list \<Rightarrow> nat \<Rightarrow> nat \<Rightarrow> conversion \<Rightarrow> conversion option" where
  "convert_pixel ck rgb j k c =
    do {
      r \<leftarrow> load rgb (u32 (cv_s c + 0));
      g \<leftarrow> load rgb (u32 (cv_s c + 1));
      b \<leftarrow> load rgb (u32 (cv_s c + 2));
      let sR = char_value ck r;
      let sG = char_value ck g;
      let sB = char_value ck b;
      yuv \<leftarrow> store (cv_yuv420p c) (cv_i c)
               (to_char (char_value ck (to_char (drop_bit 8 (66 * sR + 129 * sG + 25 * sB + 128))) + 16));
      c \<leftarrow>
        (if 0 = j mod 2 \<and> 0 = k mod 2 then
           do {
             yuv \<leftarrow> store yuv (cv_ui c)
                      (to_char (char_value ck (to_char (drop_bit 8 (- 38 * sR - 74 * sG + 112 * sB + 128))) + 128));
             yuv \<leftarrow> store yuv (cv_vi c)
                      (to_char (char_value ck (to_char (drop_bit 8 (112 * sR - 94 * sG - 18 * sB + 128))) + 128));
             Some (c\<lparr>cv_yuv420p := yuv, cv_ui := u32 (cv_ui c + 1), cv_vi := u32 (cv_vi c + 1)\<rparr>)
           }
         else Some (c\<lparr>cv_yuv420p := yuv\<rparr>));
      Some (c\<lparr>cv_i := u32 (cv_i c + 1), cv_s := u32 (cv_s c + 4)\<rparr>)
    }"

text \<open>
  A loop \<^verbatim>\<open>for (int x = 0; x < n; x++)\<close> over an unsigned bound \<open>n\<close>: the body runs for
  \<open>x = 0, ..., n - 1\<close>; a bound that \<^verbatim>\<open>int\<close> cannot reach overflows the counter.
\<close>

fun iterate :: "nat list \<Rightarrow> (nat \<Rightarrow> 'a \<Rightarrow> 'a option) \<Rightarrow> 'a \<Rightarrow> 'a option" where
  "iterate [] body c = Some c"
| "iterate (x # xs) body c = (case body x c of None \<Rightarrow> None | Some c' \<Rightarrow> iterate xs body c')"

definition for_loop :: "nat \<Rightarrow> (nat \<Rightarrow> 'a \<Rightarrow> 'a option) \<Rightarrow> 'a \<Rightarrow> 'a option" where
  "for_loop n body c = (if n < 2 ^ 31 then iterate [0..<n] body c else None)"

definition rgb2yuv420p :: "char_kind \<Rightarrow> byte list \<Rightarrow> byte list \<Rightarrow> nat \<Rightarrow> nat \<Rightarrow> byte list option" where
  "rgb2yuv420p ck rgb yuv420p w h =
    (let numpixels = u32 (w * h) in
     map_option cv_yuv420p
       (for_loop h (\<lambda>j. for_loop w (\<lambda>k. convert_pixel ck rgb j k))
          \<lparr>cv_i = 0, cv_ui = numpixels, cv_vi = u32 (numpixels + numpixels div 4), cv_s = 0,
           cv_yuv420p = yuv420p\<rparr>))"

section \<open>Packing, the callbacks and the operations\<close>

text \<open>
  The end of \<^verbatim>\<open>PackBuffer\<close>, common to both modes: the return callback is registered, the
  time stamp is written to the meta data, and the pair is remembered.
\<close>

definition remember_packed :: "handle \<Rightarrow> payload \<Rightarrow> Buffer \<Rightarrow> TimestampUs \<Rightarrow> H264Encoder \<Rightarrow> H264Encoder" where
  "remember_packed mb contents input_buffer timestamp s =
     s\<lparr>media_buffers := (media_buffers s)
          (mb \<mapsto> \<lparr>mb_data = contents, mb_time = Some timestamp, mb_return_callback = True\<rparr>),
       m_pending_buffers := m_pending_buffers s @ [\<lparr>buffer = input_buffer, media_buffer = mb\<rparr>]\<rparr>"

text \<open>
  \<open>created\<close> is what \<^verbatim>\<open>media_buffer_create\<close> returns if it is called. The result is \<open>None\<close>
  when the conversion runs into undefined behaviour, and otherwise the pointer returned
  (\<open>None\<close> for \<^verbatim>\<open>nullptr\<close>) with the new state.
\<close>

definition PackBuffer :: "char_kind \<Rightarrow> allocation option \<Rightarrow> Buffer \<Rightarrow> TimestampUs \<Rightarrow> H264Encoder \<Rightarrow> (handle option \<times> H264Encoder) option" where
  "PackBuffer ck created input_buffer timestamp s =
    (if m_readout s \<and> NativeHandle input_buffer = None \<and> 0 < Length input_buffer then
       (case created of
          None \<Rightarrow> Some (None, AC_WARNING ''Ignoring media buffer'' s)
        | Some (mb, memory) \<Rightarrow>
           (case rgb2yuv420p ck (Data input_buffer)
                   (map memory [0..<unat (width (m_config s) * height (m_config s) * 3 div 2)])
                   (unat (width (m_config s))) (unat (height (m_config s))) of
              None \<Rightarrow> None
            | Some yuv \<Rightarrow> Some (Some mb, remember_packed mb (Bytes yuv) input_buffer timestamp s)))
     else if \<not> m_readout s \<and> NativeHandle input_buffer \<noteq> None then
       (case created of
          None \<Rightarrow> Some (None, AC_WARNING ''Ignoring media buffer'' s)
        | Some (mb, memory) \<Rightarrow>
            Some (Some mb,
              remember_packed mb
                (NativeMetadata \<lparr>eType = kMetadataBufferTypeANWBuffer,
                                 pBuffer = NativeHandle input_buffer, nFenceFd = - 1\<rparr>)
                input_buffer timestamp s))
     else Some (None, AC_WARNING ''Could not allocate media buffer'' s))"

text \<open>
  The pull-read callback. \<open>thiz\<close> says whether \<^verbatim>\<open>user_data\<close> points to the encoder,
  \<open>slot\<close> whether the output pointer \<^verbatim>\<open>buffer\<close> is not null. The result is the status
  returned, the pointer written to the slot (if any), and the new state.
\<close>

definition OnSourceRead :: "char_kind \<Rightarrow> bool \<Rightarrow> bool \<Rightarrow> allocation option \<Rightarrow> H264Encoder \<Rightarrow> (int \<times> handle option \<times> H264Encoder) option" where
  "OnSourceRead ck thiz slot created s =
    (if \<not> thiz \<or> \<not> m_running s then Some (kAndroidMediaErrorNotConnected, None, s)
     else if \<not> slot then Some (kAndroidMediaErrorBufferTooSmall, None, s)
     else case BufferQueue_Next (m_input_queue s) of
       (None, queue) \<Rightarrow> Some (kAndroidMediaErrorEndOfStream, None, s\<lparr>m_input_queue := queue\<rparr>)
     | (Some input_buffer, queue) \<Rightarrow>
        (case PackBuffer ck created input_buffer (Timestamp input_buffer) (s\<lparr>m_input_queue := queue\<rparr>) of
           None \<Rightarrow> None
         | Some (None, s') \<Rightarrow> Some (kAndroidMediaErrorEndOfStream, None, s')
         | Some (Some next_buffer, s') \<Rightarrow>
             Some (0, Some next_buffer,
                   s'\<lparr>m_report := m_report s' @ [BeganFrame (Timestamp input_buffer)]\<rparr>)))"

text \<open>The loop of \<^verbatim>\<open>OnBufferReturned\<close>: the position of the first entry for a runtime buffer.\<close>

fun find_pending :: "handle \<Rightarrow> BufferItem list \<Rightarrow> nat option" where
  "find_pending mb [] = None"
| "find_pending mb (item # items) =
     (if media_buffer item = mb then Some 0 else map_option Suc (find_pending mb items))"

definition erase :: "nat \<Rightarrow> 'a list \<Rightarrow> 'a list" where
  "erase n xs = take n xs @ drop (Suc n) xs"

definition OnBufferReturned :: "bool \<Rightarrow> handle \<Rightarrow> H264Encoder \<Rightarrow> H264Encoder" where
  "OnBufferReturned thiz mb s =
    (if \<not> thiz then s
     else case find_pending mb (m_pending_buffers s) of
       None \<Rightarrow> AC_WARNING (''Didn'' @ CHR 0x27 # ''t remember returned buffer!?'') s
     | Some n \<Rightarrow>
        (let item = m_pending_buffers s ! n;
             s = s\<lparr>media_buffers := (media_buffers s)
                     (media_buffer item :=
                        map_option (\<lambda>b. b\<lparr>mb_return_callback := False\<rparr>)
                          (media_buffers s (media_buffer item)))\<rparr>;
             s = runtime (BufferRelease (media_buffer item)) s;
             s = s\<lparr>m_pending_buffers := erase n (m_pending_buffers s)\<rparr>
         in s\<lparr>released := released s @ [buffer item]\<rparr>))"

text \<open>
  The callbacks the runtime can invoke, with the arguments it passes and, for a pull-read,
  what \<^verbatim>\<open>media_buffer_create\<close> answers during it. The runtime passes the \<^verbatim>\<open>user_data\<close>
  that \<^verbatim>\<open>Configure\<close> and \<^verbatim>\<open>PackBuffer\<close> registered, the encoder itself. \<open>invoke\<close> runs
  one callback and records what it hands back to the runtime.
\<close>

datatype callback =
    SourceStart
  | SourceStop
  | SourcePause
  | SourceRead bool "allocation option"
  | BufferReturned handle

definition handed_back :: "int \<Rightarrow> handle option \<Rightarrow> H264Encoder \<Rightarrow> H264Encoder" where
  "handed_back status mb s = s\<lparr>callback_results := callback_results s @ [(status, mb)]\<rparr>"

fun invoke :: "char_kind \<Rightarrow> callback \<Rightarrow> H264Encoder \<Rightarrow> H264Encoder option" where
  "invoke ck SourceStart s = Some (handed_back 0 None s)"
| "invoke ck SourceStop s = Some (handed_back 0 None s)"
| "invoke ck SourcePause s = Some (handed_back 0 None s)"
| "invoke ck (SourceRead slot created) s =
     (case OnSourceRead ck True slot created s of
        None \<Rightarrow> None
      | Some (status, mb, s') \<Rightarrow> Some (handed_back status mb s'))"
| "invoke ck (BufferReturned mb) s = Some (OnBufferReturned True mb s)"

fun invoke_all :: "char_kind \<Rightarrow> callback list \<Rightarrow> H264Encoder \<Rightarrow> H264Encoder option" where
  "invoke_all ck [] s = Some s"
| "invoke_all ck (cb # cbs) s =
     (case invoke ck cb s of None \<Rightarrow> None | Some s' \<Rightarrow> invoke_all ck cbs s')"

text \<open>
  \<^verbatim>\<open>Start\<close>. The runtime's \<^verbatim>\<open>media_codec_source_start\<close> invokes the callbacks \<open>during\<close> before
  it returns \<open>started\<close>.
\<close>

definition Start :: "char_kind \<Rightarrow> callback list \<Rightarrow> bool \<Rightarrow> H264Encoder \<Rightarrow> (bool \<times> H264Encoder) option" where
  "Start ck during started s =
    (case m_encoder s of
       None \<Rightarrow> Some (False, s)
     | Some encoder \<Rightarrow>
        if m_running s then Some (False, s)
        else
          (case invoke_all ck during (runtime (CodecSourceStart encoder) (s\<lparr>m_running := True\<rparr>)) of
             None \<Rightarrow> None
           | Some s' \<Rightarrow>
               if \<not> started
               then Some (False, (AC_ERROR ''Failed to start encoder'' s')\<lparr>m_running := False\<rparr>)
               else Some (True, s'\<lparr>m_report := m_report s' @ [Started]\<rparr>)))"

text \<open>\<^verbatim>\<open>MediaSourceBuffer::Create\<close>; \<open>initial\<close> is the time stamp of a newly constructed buffer.\<close>

definition MediaSourceBuffer_Create :: "TimestampUs \<Rightarrow> encoded_unit \<Rightarrow> MediaSourceBuffer" where
  "MediaSourceBuffer_Create initial u =
     \<lparr>msb_buffer = unit_data u,
      msb_timestamp =
        (case unit_meta u of
           None \<Rightarrow> initial
         | Some meta \<Rightarrow>
            (case map_of meta MEDIA_META_DATA_KEY_TIME of
               Some (MetaInt64 time_us) \<Rightarrow> time_us
             | _ \<Rightarrow> 0))\<rparr>"

definition DoesBufferContainCodecConfig :: "encoded_unit \<Rightarrow> bool" where
  "DoesBufferContainCodecConfig u =
     (case unit_meta u of
        None \<Rightarrow> False
      | Some meta_data \<Rightarrow>
         (case map_of meta_data MEDIA_META_DATA_KEY_IS_CODEC_CONFIG of
            Some (MetaInt32 is_codec_config) \<Rightarrow> is_codec_config \<noteq> 0
          | _ \<Rightarrow> False))"

text \<open>\<^verbatim>\<open>Execute\<close>; \<open>unit_read\<close> is the unit \<^verbatim>\<open>media_codec_source_read\<close> delivers, if any.\<close>

definition Execute :: "TimestampUs \<Rightarrow> encoded_unit option \<Rightarrow> H264Encoder \<Rightarrow> bool \<times> H264Encoder" where
  "Execute initial unit_read s =
    (if \<not> m_running s then (False, AC_ERROR ''Tried to execute encoder while not started'' s)
     else case unit_read of
       None \<Rightarrow>
         (False, AC_ERROR ''Failed to read a new buffer from encoder''
                   (runtime (CodecSourceRead (m_encoder s)) s))
     | Some u \<Rightarrow>
        (let s = runtime (CodecSourceRead (m_encoder s)) s;
             mbuf = MediaSourceBuffer_Create initial u;
             s = s\<lparr>m_report := m_report s @ [FinishedFrame (msb_timestamp mbuf)]\<rparr>;
             s = (if DoesBufferContainCodecConfig u \<and> m_delegate s
                  then s\<lparr>delegate_calls := delegate_calls s @ [OnBufferWithCodecConfig mbuf]\<rparr>
                  else s);
             s = (if m_delegate s
                  then s\<lparr>delegate_calls := delegate_calls s @ [OnBufferAvailable mbuf]\<rparr>
                  else s)
         in (True, s)))"

text \<open>\<^verbatim>\<open>Stop\<close>; \<open>stopped\<close> is what \<^verbatim>\<open>media_codec_source_stop\<close> returns.\<close>

definition Stop :: "bool \<Rightarrow> H264Encoder \<Rightarrow> bool \<times> H264Encoder" where
  "Stop stopped s =
    (case m_encoder s of
       None \<Rightarrow> (False, s)
     | Some encoder \<Rightarrow>
        if \<not> m_running s then (False, s)
        else if \<not> stopped then (False, runtime (CodecSourceStop encoder) s)
        else (True, (runtime (CodecSourceStop encoder) s)
                      \<lparr>m_running := False,
                       m_report := m_report s @ [Stopped]\<rparr>))"

definition QueueBuffer :: "Buffer \<Rightarrow> H264Encoder \<Rightarrow> H264Encoder" where
  "QueueBuffer b s =
    (if \<not> m_running s then s
     else s\<lparr>m_input_queue := BufferQueue_Push b (m_input_queue s),
            m_report := m_report s @ [ReceivedInputBuffer (Timestamp b)]\<rparr>)"

definition SendIDRFrame :: "H264Encoder \<Rightarrow> H264Encoder" where
  "SendIDRFrame s =
    (case m_encoder s of
       None \<Rightarrow> s
     | Some encoder \<Rightarrow> runtime (CodecSourceRequestIdrFrame encoder) s)"

text \<open>Everything that can happen to an encoder: a call of a method, or a callback.\<close>

datatype operation =
    CallConfigure configure_env Config
  | CallStart "callback list" bool
  | CallStop bool
  | CallExecute TimestampUs "encoded_unit option"
  | CallQueueBuffer Buffer
  | CallSendIDRFrame
  | Callback callback

fun step :: "char_kind \<Rightarrow> operation \<Rightarrow> H264Encoder \<Rightarrow> H264Encoder option" where
  "step ck (CallConfigure env config) s = Some (snd (Configure env config s))"
| "step ck (CallStart during started) s = map_option snd (Start ck during started s)"
| "step ck (CallStop stopped) s = Some (snd (Stop stopped s))"
| "step ck (CallExecute initial unit_read) s = Some (snd (Execute initial unit_read s))"
| "step ck (CallQueueBuffer b) s = Some (QueueBuffer b s)"
| "step ck CallSendIDRFrame s = Some (SendIDRFrame s)"
| "step ck (Callback cb) s = invoke ck cb s"

section \<open>The specification's formulas and its scenarios\<close>

text \<open>
  The macroblock count as the specification words it: the number of 16-pixel columns times
  the number of 16-pixel rows, rounded up in each direction, of which 10 percent are taken,
  rounded down to a whole number.
\<close>

definition spec_intra_refresh_mbs :: "nat \<Rightarrow> nat \<Rightarrow> int" where
  "spec_intra_refresh_mbs w h =
     \<lfloor>of_int (\<lceil>real w / 16\<rceil> * \<lceil>real h / 16\<rceil>) * (10 / 100 :: real)\<rfloor>"

text \<open>The scenario of the specification: 1280 by 720 at 5,000,000 bit/s, an I frame every 15 s.\<close>

definition scenario_config :: Config where
  "scenario_config =
     \<lparr>width = 1280, height = 720, bitrate = 5000000, framerate = 30, profile_idc = 0,
      level_idc = 0, constraint_set = 0, i_frame_interval = 15, intra_refresh_mode = 0\<rparr>"

text \<open>A runtime that creates every object \<^verbatim>\<open>Configure\<close> asks for.\<close>

definition runtime_ok :: configure_env where
  "runtime_ok =
     \<lparr>message_created = Some 1, colorformat_property = Some 0, source_created = Some 2,
      meta_data_created = Some 3, codec_source_created = Some 4\<rparr>"

text \<open>A runtime that fails to create the codec source, after creating everything else.\<close>

definition runtime_no_codec :: configure_env where
  "runtime_no_codec = runtime_ok\<lparr>codec_source_created := None\<rparr>"

text \<open>Encoders of the scenario: new, configured, and started, in zero-copy and in readout mode.\<close>

definition new_encoder :: "bool \<Rightarrow> H264Encoder" where
  "new_encoder readout = new_H264Encoder scenario_config True readout"

definition configured_encoder :: "bool \<Rightarrow> H264Encoder" where
  "configured_encoder readout = snd (Configure runtime_ok scenario_config (new_encoder readout))"

definition running_encoder :: "bool \<Rightarrow> H264Encoder" where
  "running_encoder readout =
     (case Start UnsignedChar [] True (configured_encoder readout) of
        Some (started, s) \<Rightarrow> s
      | None \<Rightarrow> configured_encoder readout)"

text \<open>Two frame buffers: one with a native handle, one with four bytes of pixel data.\<close>

definition handle_buffer :: Buffer where
  "handle_buffer =
     \<lparr>buffer_id = 1, NativeHandle = Some 77, Length = 0, Data = [], Timestamp = 1000\<rparr>"

definition pixel_buffer :: Buffer where
  "pixel_buffer =
     \<lparr>buffer_id = 2, NativeHandle = None, Length = 4, Data = [10, 20, 30, 255], Timestamp = 2000\<rparr>"

text \<open>The entries of the pending set that belong to one runtime buffer.\<close>

definition pending_for :: "handle \<Rightarrow> H264Encoder \<Rightarrow> BufferItem list" where
  "pending_for mb s = filter (\<lambda>item. media_buffer item = mb) (m_pending_buffers s)"

text \<open>Whether a callback, or an operation, allocates or returns the runtime buffer \<open>mb\<close>.\<close>

fun callback_concerns :: "handle \<Rightarrow> callback \<Rightarrow> bool" where
  "callback_concerns mb (SourceRead slot (Some (mb', memory))) = (mb' = mb)"
| "callback_concerns mb (BufferReturned mb') = (mb' = mb)"
| "callback_concerns mb cb = False"

fun concerns :: "handle \<Rightarrow> operation \<Rightarrow> bool" where
  "concerns mb (CallStart during started) = list_ex (callback_concerns mb) during"
| "concerns mb (Callback cb) = callback_concerns mb cb"
| "concerns mb op = False"

text \<open>
  When packing cannot succeed: the buffer does not fit the mode (in readout mode it carries
  a native handle or has length zero, in zero-copy mode it carries no native handle), or
  the runtime fails to allocate a buffer.
\<close>

definition packing_fails :: "bool \<Rightarrow> allocation option \<Rightarrow> Buffer \<Rightarrow> bool" where
  "packing_fails readout created b =
     ((readout \<and> (NativeHandle b \<noteq> None \<or> Length b = 0))
      \<or> (\<not> readout \<and> NativeHandle b = None)
      \<or> created = None)"











definition frame_config :: "uint32 \<Rightarrow> uint32 \<Rightarrow> Config" where
  "frame_config w h = scenario_config\<lparr>width := w, height := h\<rparr>"






section \<open>Facts used throughout\<close>

lemma configured_encoder_eval:
  "configured_encoder r =
     (new_encoder r)\<lparr>m_encoder := Some 4, m_config := scenario_config,
        m_format := Some (1, build_format r (Some 0) scenario_config),
        m_source_format := Some (3, build_source_format scenario_config)\<rparr>"
  by (simp add: configured_encoder_def Configure_def runtime_ok_def new_encoder_def new_H264Encoder_def)

lemma running_encoder_eval:
  "running_encoder r =
     (configured_encoder r)\<lparr>m_running := True, runtime_calls := [CodecSourceStart 4],
        m_report := [Started]\<rparr>"
  by (simp add: running_encoder_def Start_def runtime_def configured_encoder_def
        Configure_def runtime_ok_def new_encoder_def new_H264Encoder_def)

lemma PackBuffer_fails:
  assumes "packing_fails (m_readout s) created input_buffer"
  shows "\<exists>msg. PackBuffer ck created input_buffer timestamp s = Some (None, AC_WARNING msg s)"
  using assms
  by (auto simp: PackBuffer_def packing_fails_def word_gt_0)

lemma find_pending_Some:
  assumes "find_pending mb items = Some n"
  shows "n < length items \<and> media_buffer (items ! n) = mb
         \<and> (\<forall>i < n. media_buffer (items ! i) \<noteq> mb)"
  using assms
proof (induction items arbitrary: n)
  case Nil
  then show ?case by simp
next
  case (Cons item items)
  show ?case
  proof (cases "media_buffer item = mb")
    case True
    with Cons.prems show ?thesis by simp
  next
    case False
    with Cons.prems obtain m where m: "find_pending mb items = Some m" "n = Suc m"
      by auto
    from Cons.IH [OF m(1)] m(2) False show ?thesis
      by (auto simp: less_Suc_eq_0_disj)
  qed
qed

lemma find_pending_None: "find_pending mb items = None \<longleftrightarrow> mb \<notin> media_buffer ` set items"
  by (induction items) auto

section \<open>The pending set\<close>

lemma filter_erase_first:
  assumes "find_pending mb items = Some n"
  shows "filter (\<lambda>item. media_buffer item = mb) (erase n items)
           = tl (filter (\<lambda>item. media_buffer item = mb) items)
         \<and> items ! n = hd (filter (\<lambda>item. media_buffer item = mb) items)
         \<and> (mb' \<noteq> mb \<longrightarrow> filter (\<lambda>item. media_buffer item = mb') (erase n items)
               = filter (\<lambda>item. media_buffer item = mb') items)"
  using assms
proof (induction items arbitrary: n)
  case Nil
  then show ?case by simp
next
  case (Cons item items)
  show ?case
  proof (cases "media_buffer item = mb")
    case True
    with Cons.prems have "n = 0" by simp
    with True show ?thesis by (auto simp: erase_def)
  next
    case False
    with Cons.prems obtain m where m: "find_pending mb items = Some m" "n = Suc m"
      by auto
    from Cons.IH [OF m(1)] m(2) False show ?thesis
      by (simp add: erase_def)
  qed
qed

lemma pending_for_simps:
  "pending_for mb (AC_WARNING msg s) = pending_for mb s"
  "pending_for mb (AC_ERROR msg s) = pending_for mb s"
  "pending_for mb (runtime c s) = pending_for mb s"
  "pending_for mb (handed_back status r s) = pending_for mb s"
  "pending_for mb (s\<lparr>m_running := x\<rparr>) = pending_for mb s"
  "pending_for mb (s\<lparr>m_report := y\<rparr>) = pending_for mb s"
  "pending_for mb (s\<lparr>m_input_queue := q\<rparr>) = pending_for mb s"
  "pending_for mb (s\<lparr>delegate_calls := d\<rparr>) = pending_for mb s"
  by (simp_all add: pending_for_def AC_WARNING_def AC_ERROR_def runtime_def handed_back_def)

lemma PackBuffer_pending:
  assumes "PackBuffer ck created input_buffer timestamp s = Some (r, s')"
  shows "(case r of
            None \<Rightarrow> m_pending_buffers s' = m_pending_buffers s
          | Some mb \<Rightarrow> (\<exists>memory. created = Some (mb, memory))
              \<and> m_pending_buffers s' = m_pending_buffers s @ [\<lparr>buffer = input_buffer, media_buffer = mb\<rparr>])"
  using assms
  by (auto simp: PackBuffer_def remember_packed_def AC_WARNING_def
      split: if_splits option.splits prod.splits)

lemma OnBufferReturned_other:
  assumes "mb' \<noteq> mb"
  shows "pending_for mb (OnBufferReturned thiz mb' s) = pending_for mb s"
proof (cases "find_pending mb' (m_pending_buffers s)")
  case None
  then show ?thesis by (simp add: OnBufferReturned_def pending_for_simps)
next
  case (Some n)
  from filter_erase_first [OF Some, of mb] assms
  have "filter (\<lambda>item. media_buffer item = mb) (erase n (m_pending_buffers s))
          = filter (\<lambda>item. media_buffer item = mb) (m_pending_buffers s)"
    by simp
  with Some show ?thesis
    by (simp add: OnBufferReturned_def Let_def runtime_def pending_for_def)
qed

lemma invoke_pending:
  assumes "invoke ck cb s = Some s'" and "\<not> callback_concerns mb cb"
  shows "pending_for mb s' = pending_for mb s"
proof (cases cb)
  case (SourceRead slot created)
  with assms(1) obtain status r s1 where
    o: "OnSourceRead ck True slot created s = Some (status, r, s1)" and s': "s' = handed_back status r s1"
    by (auto split: option.splits)
  have "pending_for mb s1 = pending_for mb s"
  proof (cases "m_running s \<and> slot \<and> m_input_queue s \<noteq> []")
    case False
    with o show ?thesis
      by (auto simp: OnSourceRead_def BufferQueue_Next_def pending_for_simps
          split: if_splits list.splits)
  next
    case True
    then obtain b rest where q: "m_input_queue s = b # rest"
      by (cases "m_input_queue s") auto
    with True o obtain r' s2 where
      p: "PackBuffer ck created b (Timestamp b) (s\<lparr>m_input_queue := rest\<rparr>) = Some (r', s2)"
      and s1: "pending_for mb s1 = pending_for mb s2"
      by (auto simp: OnSourceRead_def BufferQueue_Next_def pending_for_simps
          split: option.splits)
    from PackBuffer_pending [OF p] assms(2) SourceRead
    have "pending_for mb s2 = pending_for mb (s\<lparr>m_input_queue := rest\<rparr>)"
      by (cases r') (auto simp: pending_for_def)
    with s1 show ?thesis by (simp add: pending_for_simps)
  qed
  with s' show ?thesis by (simp add: pending_for_simps)
next
  case (BufferReturned mb')
  with assms OnBufferReturned_other [of mb' mb True s] show ?thesis by auto
qed (use assms in \<open>auto simp: pending_for_simps\<close>)

lemma invoke_all_pending:
  assumes "invoke_all ck cbs s = Some s'" and "\<not> list_ex (callback_concerns mb) cbs"
  shows "pending_for mb s' = pending_for mb s"
  using assms
proof (induction cbs arbitrary: s)
  case Nil
  then show ?case by simp
next
  case (Cons cb cbs)
  then obtain s1 where i: "invoke ck cb s = Some s1" and a: "invoke_all ck cbs s1 = Some s'"
    by (auto split: option.splits)
  from Cons.prems(2) have n: "\<not> callback_concerns mb cb" "\<not> list_ex (callback_concerns mb) cbs"
    by simp_all
  from invoke_pending [OF i n(1)] Cons.IH [OF a n(2)] show ?case by simp
qed

lemma Configure_pending: "pending_for mb (snd (Configure env config s)) = pending_for mb s"
  by (simp add: Configure_def pending_for_def AC_ERROR_def runtime_def split: option.split)

lemma step_pending:
  assumes "step ck op s = Some s'" and "\<not> concerns mb op"
  shows "pending_for mb s' = pending_for mb s"
proof (cases op)
  case (CallConfigure env config)
  with assms Configure_pending show ?thesis by auto
next
  case (CallStart during started)
  show ?thesis
  proof (cases "m_encoder s = None \<or> m_running s")
    case True
    with assms CallStart show ?thesis
      by (auto simp: Start_def split: option.splits)
  next
    case False
    then obtain encoder where e: "m_encoder s = Some encoder" "\<not> m_running s" by auto
    with assms CallStart obtain s1 where
      i: "invoke_all ck during (runtime (CodecSourceStart encoder) (s\<lparr>m_running := True\<rparr>)) = Some s1"
      and s': "pending_for mb s' = pending_for mb s1"
      by (auto simp: Start_def pending_for_simps pending_for_def AC_ERROR_def
          split: option.splits if_splits)
    from assms(2) CallStart have "\<not> list_ex (callback_concerns mb) during" by simp
    from invoke_all_pending [OF i this] s' show ?thesis by (simp add: pending_for_simps)
  qed
next
  case (CallStop stopped)
  with assms show ?thesis
    by (auto simp: Stop_def pending_for_def runtime_def split: option.splits)
next
  case (CallExecute initial unit_read)
  with assms show ?thesis
    by (auto simp: Execute_def Let_def pending_for_def runtime_def AC_ERROR_def split: option.splits)
next
  case (CallQueueBuffer b)
  with assms show ?thesis by (auto simp: QueueBuffer_def pending_for_def)
next
  case CallSendIDRFrame
  with assms show ?thesis
    by (auto simp: SendIDRFrame_def pending_for_simps split: option.splits)
next
  case (Callback cb)
  with assms invoke_pending show ?thesis by auto
qed


lemma return_pending:
  assumes "pending_for mb s = [entry]"
  shows "pending_for mb (OnBufferReturned True mb s) = []
    \<and> released (OnBufferReturned True mb s) = released s @ [buffer entry]
    \<and> length (m_pending_buffers (OnBufferReturned True mb s)) + 1 = length (m_pending_buffers s)"
proof -
  from assms have "mb \<in> media_buffer ` set (m_pending_buffers s)"
    by (auto simp: pending_for_def filter_eq_Cons_iff)
  then obtain n where n: "find_pending mb (m_pending_buffers s) = Some n"
    using find_pending_None [of mb "m_pending_buffers s"] by (cases "find_pending mb (m_pending_buffers s)") auto
  from filter_erase_first [OF n, of mb] assms
  have f: "filter (\<lambda>item. media_buffer item = mb) (erase n (m_pending_buffers s)) = []"
    "m_pending_buffers s ! n = entry"
    by (simp_all add: pending_for_def)
  from find_pending_Some [OF n] have "n < length (m_pending_buffers s)" by simp
  then have l: "length (erase n (m_pending_buffers s)) + 1 = length (m_pending_buffers s)"
    by (simp add: erase_def)
  from n f l show ?thesis
    by (simp add: OnBufferReturned_def Let_def runtime_def pending_for_def)
qed

lemma return_unknown:
  assumes "pending_for mb s = []"
  shows "OnBufferReturned True mb s
           = AC_WARNING (''Didn'' @ CHR 0x27 # ''t remember returned buffer!?'') s"
proof -
  from assms have "mb \<notin> media_buffer ` set (m_pending_buffers s)"
    by (auto simp: pending_for_def filter_empty_conv)
  then have "find_pending mb (m_pending_buffers s) = None"
    by (simp add: find_pending_None)
  then show ?thesis by (simp add: OnBufferReturned_def)
qed

text \<open>
  Claim C1. A successful \<open>PackBuffer\<close> appends exactly one entry to the pending set, the
  pair of the producer's buffer and the runtime buffer; when the runtime buffer was not
  pending before (the runtime hands out no buffer that is still outstanding), it is then
  the one entry for that runtime buffer. No operation and no callback that neither
  allocates nor returns this runtime buffer changes the entries for it. The buffer-returned
  callback for it removes that one entry and no other, and releases the producer's buffer
  once. A buffer-returned callback for a runtime buffer without an entry logs a warning
  and changes nothing else.
\<close>

theorem pending_entry_lifecycle:
  "(PackBuffer ck created input_buffer timestamp s = Some (Some mb, s1) \<longrightarrow>
      m_pending_buffers s1
        = m_pending_buffers s @ [\<lparr>buffer = input_buffer, media_buffer = mb\<rparr>]
      \<and> (pending_for mb s = [] \<longrightarrow>
            pending_for mb s1 = [\<lparr>buffer = input_buffer, media_buffer = mb\<rparr>]))
   \<and> (step ck op s = Some s2 \<and> \<not> concerns mb op \<longrightarrow> pending_for mb s2 = pending_for mb s)
   \<and> (pending_for mb s = [entry] \<longrightarrow>
        pending_for mb (OnBufferReturned True mb s) = []
        \<and> released (OnBufferReturned True mb s) = released s @ [buffer entry]
        \<and> length (m_pending_buffers (OnBufferReturned True mb s)) + 1
            = length (m_pending_buffers s)
        \<and> (\<forall>mb'. mb' \<noteq> mb \<longrightarrow>
              pending_for mb' (OnBufferReturned True mb s) = pending_for mb' s))
   \<and> (pending_for mb s = [] \<longrightarrow>
        OnBufferReturned True mb s
          = AC_WARNING (''Didn'' @ CHR 0x27 # ''t remember returned buffer!?'') s
        \<and> m_pending_buffers (OnBufferReturned True mb s) = m_pending_buffers s
        \<and> released (OnBufferReturned True mb s) = released s)"
proof (intro conjI impI allI)
  assume p: "PackBuffer ck created input_buffer timestamp s = Some (Some mb, s1)"
  from PackBuffer_pending [OF p]
  show a: "m_pending_buffers s1
        = m_pending_buffers s @ [\<lparr>buffer = input_buffer, media_buffer = mb\<rparr>]"
    by simp
  assume "pending_for mb s = []"
  with a show "pending_for mb s1 = [\<lparr>buffer = input_buffer, media_buffer = mb\<rparr>]"
    by (simp add: pending_for_def)
next
  assume "step ck op s = Some s2 \<and> \<not> concerns mb op"
  then show "pending_for mb s2 = pending_for mb s"
    using step_pending by blast
next
  assume i: "pending_for mb s = [entry]"
  from return_pending [OF i]
  show "pending_for mb (OnBufferReturned True mb s) = []"
    "released (OnBufferReturned True mb s) = released s @ [buffer entry]"
    "length (m_pending_buffers (OnBufferReturned True mb s)) + 1 = length (m_pending_buffers s)"
    by simp_all
next
  fix mb'
  assume "mb' \<noteq> mb"
  then show "pending_for mb' (OnBufferReturned True mb s) = pending_for mb' s"
    by (simp add: OnBufferReturned_other)
next
  assume e: "pending_for mb s = []"
  from return_unknown [OF e]
  show w: "OnBufferReturned True mb s
          = AC_WARNING (''Didn'' @ CHR 0x27 # ''t remember returned buffer!?'') s" .
  show "m_pending_buffers (OnBufferReturned True mb s) = m_pending_buffers s"
    "released (OnBufferReturned True mb s) = released s"
    by (simp_all add: w AC_WARNING_def)
qed

theorem pending_entry_lifecycle_witness:
  "m_pending_buffers (snd (the (PackBuffer UnsignedChar (Some (9, \<lambda>a. 0)) handle_buffer 1000
       (running_encoder False))))
     = [\<lparr>buffer = handle_buffer, media_buffer = 9\<rparr>]
   \<and> pending_for 9 (the (step UnsignedChar (CallQueueBuffer pixel_buffer)
         (snd (the (PackBuffer UnsignedChar (Some (9, \<lambda>a. 0)) handle_buffer 1000
           (running_encoder False))))))
       = [\<lparr>buffer = handle_buffer, media_buffer = 9\<rparr>]
   \<and> pending_for 9 (OnBufferReturned True 9
         (snd (the (PackBuffer UnsignedChar (Some (9, \<lambda>a. 0)) handle_buffer 1000
           (running_encoder False))))) = []
   \<and> released (OnBufferReturned True 9
         (snd (the (PackBuffer UnsignedChar (Some (9, \<lambda>a. 0)) handle_buffer 1000
           (running_encoder False))))) = [handle_buffer]
   \<and> m_pending_buffers (OnBufferReturned True 5
         (snd (the (PackBuffer UnsignedChar (Some (9, \<lambda>a. 0)) handle_buffer 1000
           (running_encoder False)))))
       = [\<lparr>buffer = handle_buffer, media_buffer = 9\<rparr>]"
proof -
  let ?a = "Some (9, \<lambda>a. 0) :: allocation option"
  let ?r = "running_encoder False"
  let ?p = "PackBuffer UnsignedChar ?a handle_buffer 1000 ?r"
  let ?s1 = "snd (the ?p)"
  let ?e = "\<lparr>buffer = handle_buffer, media_buffer = 9\<rparr>"
  have r: "m_pending_buffers ?r = []" "released ?r = []"
    by (simp_all add: running_encoder_eval configured_encoder_eval new_encoder_def new_H264Encoder_def)
  have "?p \<noteq> None \<and> fst (the ?p) = Some 9 \<and> released ?s1 = released ?r"
    by (simp add: PackBuffer_def running_encoder_eval configured_encoder_eval new_encoder_def
        new_H264Encoder_def handle_buffer_def remember_packed_def)
  then have p: "?p = Some (Some 9, ?s1)" and rel: "released ?s1 = []"
    using r(2) by (auto simp: prod_eq_iff)
  note pack = pending_entry_lifecycle [where s = ?r and ?s1.0 = ?s1 and mb = 9 and ck = UnsignedChar
      and created = ?a and input_buffer = handle_buffer and timestamp = 1000, THEN conjunct1]
  have 1: "m_pending_buffers ?s1 = [?e]" and f: "pending_for 9 ?s1 = [?e]"
    using pack p r(1) by (simp_all add: pending_for_def)
  have q: "step UnsignedChar (CallQueueBuffer pixel_buffer) ?s1
             = Some (the (step UnsignedChar (CallQueueBuffer pixel_buffer) ?s1))"
    by simp
  note keep = pending_entry_lifecycle [where s = ?s1 and mb = 9 and ck = UnsignedChar
      and op = "CallQueueBuffer pixel_buffer"
      and ?s2.0 = "the (step UnsignedChar (CallQueueBuffer pixel_buffer) ?s1)",
      THEN conjunct2, THEN conjunct1]
  have 2: "pending_for 9 (the (step UnsignedChar (CallQueueBuffer pixel_buffer) ?s1)) = [?e]"
    using keep q f by simp
  note returned = pending_entry_lifecycle [where s = "?s1" and mb = 9 and entry = "?e",
      THEN conjunct2, THEN conjunct2, THEN conjunct1]
  have 3: "pending_for 9 (OnBufferReturned True 9 ?s1) = []"
    "released (OnBufferReturned True 9 ?s1) = [handle_buffer]"
    using returned f rel by simp_all
  have u: "pending_for 5 ?s1 = []"
    using 1 by (simp add: pending_for_def)
  note unknown = pending_entry_lifecycle [where s = ?s1 and mb = 5,
      THEN conjunct2, THEN conjunct2, THEN conjunct2]
  have 4: "m_pending_buffers (OnBufferReturned True 5 ?s1) = [?e]"
    using unknown [THEN mp, OF u, THEN conjunct2, THEN conjunct1] 1 by simp
  from 1 2 3 4 show ?thesis by blast
qed

section \<open>The pull-read callback\<close>

lemma status_codes:
  "kAndroidMediaErrorNotConnected = - 1001" "kAndroidMediaErrorBufferTooSmall = - 1009"
  "kAndroidMediaErrorEndOfStream = - 1011"
  by (simp_all add: kAndroidMediaErrorNotConnected_def kAndroidMediaErrorBufferTooSmall_def
      kAndroidMediaErrorEndOfStream_def kAndroidMediaErrorBase_def)

text \<open>
  Claim C2, amended. Every invocation of the pull-read callback falls under one of five
  cases. Without the encoder, or while it is not running, the answer is not-connected
  (-1001). Otherwise, without an output slot, it is buffer-too-small (-1009). Otherwise,
  on an empty queue, it is end-of-stream (-1011). In these three cases nothing changes.
  Otherwise the oldest buffer is popped and packed; when packing succeeds the answer is
  success (0) with the packed buffer, and the reporter is notified of a began-frame event
  with the time stamp of the popped buffer; when packing fails the answer is end-of-stream
  and the reporter is not notified.
\<close>

theorem pull_read_statuses:
  "(\<not> thiz \<or> \<not> m_running s \<longrightarrow>
      OnSourceRead ck thiz slot created s = Some (- 1001, None, s))
   \<and> (thiz \<and> m_running s \<and> \<not> slot \<longrightarrow>
      OnSourceRead ck thiz slot created s = Some (- 1009, None, s))
   \<and> (thiz \<and> m_running s \<and> slot \<and> m_input_queue s = [] \<longrightarrow>
      OnSourceRead ck thiz slot created s = Some (- 1011, None, s))
   \<and> (thiz \<and> m_running s \<and> slot \<and> m_input_queue s = input_buffer # rest
       \<and> PackBuffer ck created input_buffer (Timestamp input_buffer) (s\<lparr>m_input_queue := rest\<rparr>)
           = Some (Some mb, s') \<longrightarrow>
      OnSourceRead ck thiz slot created s
        = Some (0, Some mb, s'\<lparr>m_report := m_report s' @ [BeganFrame (Timestamp input_buffer)]\<rparr>)
      \<and> m_report s' = m_report s \<and> m_input_queue s' = rest)
   \<and> (thiz \<and> m_running s \<and> slot \<and> m_input_queue s = input_buffer # rest
       \<and> PackBuffer ck created input_buffer (Timestamp input_buffer) (s\<lparr>m_input_queue := rest\<rparr>)
           = Some (None, s') \<longrightarrow>
      OnSourceRead ck thiz slot created s = Some (- 1011, None, s')
      \<and> m_report s' = m_report s \<and> m_input_queue s' = rest)"
proof (intro conjI impI)
  assume a: "thiz \<and> m_running s \<and> slot \<and> m_input_queue s = input_buffer # rest
       \<and> PackBuffer ck created input_buffer (Timestamp input_buffer) (s\<lparr>m_input_queue := rest\<rparr>)
           = Some (Some mb, s')"
  then show "OnSourceRead ck thiz slot created s
        = Some (0, Some mb, s'\<lparr>m_report := m_report s' @ [BeganFrame (Timestamp input_buffer)]\<rparr>)"
    by (simp add: OnSourceRead_def BufferQueue_Next_def)
  from a show "m_report s' = m_report s" "m_input_queue s' = rest"
    by (auto simp: PackBuffer_def remember_packed_def AC_WARNING_def
        split: if_splits option.splits prod.splits)
next
  assume a: "thiz \<and> m_running s \<and> slot \<and> m_input_queue s = input_buffer # rest
       \<and> PackBuffer ck created input_buffer (Timestamp input_buffer) (s\<lparr>m_input_queue := rest\<rparr>)
           = Some (None, s')"
  then show "OnSourceRead ck thiz slot created s = Some (- 1011, None, s')"
    by (simp add: OnSourceRead_def BufferQueue_Next_def status_codes)
  from a show "m_report s' = m_report s" "m_input_queue s' = rest"
    by (auto simp: PackBuffer_def remember_packed_def AC_WARNING_def
        split: if_splits option.splits prod.splits)
qed (auto simp: OnSourceRead_def BufferQueue_Next_def status_codes)

text \<open>
  The claim as it was worded has the callback answer success whenever a buffer is popped.
  On a running zero-copy encoder whose queue holds one buffer, a pull-read during which the
  runtime cannot allocate a buffer answers end-of-stream, and no began-frame event is
  reported.
\<close>

theorem pull_read_statuses_counterexample:
  "m_running (QueueBuffer handle_buffer (running_encoder False))
   \<and> m_input_queue (QueueBuffer handle_buffer (running_encoder False)) = [handle_buffer]
   \<and> OnSourceRead UnsignedChar True True None (QueueBuffer handle_buffer (running_encoder False))
      = Some (- 1011, None,
              AC_WARNING ''Ignoring media buffer''
                ((QueueBuffer handle_buffer (running_encoder False))\<lparr>m_input_queue := []\<rparr>))
   \<and> m_report (AC_WARNING ''Ignoring media buffer''
                ((QueueBuffer handle_buffer (running_encoder False))\<lparr>m_input_queue := []\<rparr>))
       = m_report (QueueBuffer handle_buffer (running_encoder False))"
  by (simp add: QueueBuffer_def BufferQueue_Push_def BufferQueue_Next_def OnSourceRead_def
      PackBuffer_def running_encoder_eval configured_encoder_eval new_encoder_def
      new_H264Encoder_def handle_buffer_def AC_WARNING_def status_codes)


theorem pull_read_statuses_witness:
  "OnSourceRead UnsignedChar True True None (configured_encoder False)
     = Some (- 1001, None, configured_encoder False)
   \<and> OnSourceRead UnsignedChar True False None (running_encoder False)
     = Some (- 1009, None, running_encoder False)
   \<and> OnSourceRead UnsignedChar True True None (running_encoder False)
     = Some (- 1011, None, running_encoder False)
   \<and> fst (the (OnSourceRead UnsignedChar True True (Some (9, \<lambda>a. 0))
         (QueueBuffer handle_buffer (running_encoder False)))) = 0
   \<and> fst (snd (the (OnSourceRead UnsignedChar True True (Some (9, \<lambda>a. 0))
         (QueueBuffer handle_buffer (running_encoder False))))) = Some 9
   \<and> m_report (snd (snd (the (OnSourceRead UnsignedChar True True (Some (9, \<lambda>a. 0))
         (QueueBuffer handle_buffer (running_encoder False))))))
       = [Started, ReceivedInputBuffer 1000, BeganFrame 1000]"
proof -
  let ?q = "QueueBuffer handle_buffer (running_encoder False)"
  let ?a = "Some (9, \<lambda>a. 0) :: allocation option"
  let ?p = "remember_packed 9
              (NativeMetadata \<lparr>eType = kMetadataBufferTypeANWBuffer, pBuffer = Some 77, nFenceFd = - 1\<rparr>)
              handle_buffer 1000 (?q\<lparr>m_input_queue := []\<rparr>)"
  have c: "\<not> m_running (configured_encoder False)"
    by (simp add: configured_encoder_eval new_encoder_def new_H264Encoder_def)
  have r: "m_running (running_encoder False)" "m_input_queue (running_encoder False) = []"
    by (simp_all add: running_encoder_eval configured_encoder_eval new_encoder_def new_H264Encoder_def)
  have q: "m_running ?q" "m_input_queue ?q = handle_buffer # []"
    "m_report ?q = [Started, ReceivedInputBuffer 1000]" "Timestamp handle_buffer = 1000"
    by (simp_all add: QueueBuffer_def BufferQueue_Push_def running_encoder_eval
        configured_encoder_eval new_encoder_def new_H264Encoder_def handle_buffer_def)
  have p: "PackBuffer UnsignedChar ?a handle_buffer (Timestamp handle_buffer) (?q\<lparr>m_input_queue := []\<rparr>)
             = Some (Some 9, ?p)"
    by (simp add: PackBuffer_def QueueBuffer_def running_encoder_eval configured_encoder_eval
        new_encoder_def new_H264Encoder_def handle_buffer_def)
  note t1 = pull_read_statuses [where s = "configured_encoder False" and thiz = True
      and ck = UnsignedChar and slot = True and created = None, THEN conjunct1]
  note t2 = pull_read_statuses [where s = "running_encoder False" and thiz = True
      and ck = UnsignedChar and slot = False and created = None, THEN conjunct2, THEN conjunct1]
  note t3 = pull_read_statuses [where s = "running_encoder False" and thiz = True
      and ck = UnsignedChar and slot = True and created = None,
      THEN conjunct2, THEN conjunct2, THEN conjunct1]
  note t4 = pull_read_statuses [where s = ?q and thiz = True and ck = UnsignedChar
      and slot = True and created = ?a and input_buffer = handle_buffer and rest = "[]"
      and mb = 9 and s' = ?p,
      THEN conjunct2, THEN conjunct2, THEN conjunct2, THEN conjunct1]
  have 4: "OnSourceRead UnsignedChar True True ?a ?q
             = Some (0, Some 9, ?p\<lparr>m_report := m_report ?p @ [BeganFrame 1000]\<rparr>)"
    "m_report ?p = m_report ?q"
    using t4 q p by simp_all
  from t1 c t2 r t3 4 q(3) show ?thesis by simp
qed

section \<open>Starting\<close>

lemma OnSourceRead_running:
  assumes "OnSourceRead ck thiz slot created s = Some (status, mb, s')"
  shows "m_running s' = m_running s \<and> callback_results s' = callback_results s
         \<and> (thiz \<and> m_running s \<longrightarrow> status \<noteq> kAndroidMediaErrorNotConnected)"
  using assms
  by (auto simp: OnSourceRead_def PackBuffer_def BufferQueue_Next_def remember_packed_def AC_WARNING_def
      kAndroidMediaErrorNotConnected_def kAndroidMediaErrorBufferTooSmall_def
      kAndroidMediaErrorEndOfStream_def kAndroidMediaErrorBase_def
      split: if_splits option.splits list.splits prod.splits)

lemma OnBufferReturned_running:
  "m_running (OnBufferReturned thiz mb s) = m_running s
   \<and> callback_results (OnBufferReturned thiz mb s) = callback_results s"
  by (simp add: OnBufferReturned_def AC_WARNING_def runtime_def Let_def split: option.split)

lemma invoke_running:
  assumes "invoke ck cb s = Some s'"
  shows "m_running s' = m_running s
    \<and> (\<exists>rs. callback_results s' = callback_results s @ rs
          \<and> (m_running s \<longrightarrow> (\<forall>r \<in> set rs. fst r \<noteq> kAndroidMediaErrorNotConnected)))"
proof (cases cb)
  case (SourceRead slot created)
  with assms obtain status mb s1 where
    r: "OnSourceRead ck True slot created s = Some (status, mb, s1)" and
    s': "s' = handed_back status mb s1"
    by (auto split: option.splits)
  from OnSourceRead_running [OF r] s' show ?thesis
    by (simp add: handed_back_def)
next
  case (BufferReturned mb)
  with assms OnBufferReturned_running [of True mb s] show ?thesis by auto
qed (use assms in \<open>auto simp: handed_back_def kAndroidMediaErrorNotConnected_def kAndroidMediaErrorBase_def\<close>)

lemma invoke_all_running:
  assumes "invoke_all ck cbs s = Some s'"
  shows "m_running s' = m_running s
    \<and> (\<exists>rs. callback_results s' = callback_results s @ rs
          \<and> (m_running s \<longrightarrow> (\<forall>r \<in> set rs. fst r \<noteq> kAndroidMediaErrorNotConnected)))"
  using assms
proof (induction cbs arbitrary: s)
  case Nil
  then show ?case by simp
next
  case (Cons cb cbs)
  then obtain s1 where i: "invoke ck cb s = Some s1" and a: "invoke_all ck cbs s1 = Some s'"
    by (auto split: option.splits)
  from invoke_running [OF i] obtain rs1 where
    r1: "m_running s1 = m_running s" "callback_results s1 = callback_results s @ rs1"
      "m_running s \<longrightarrow> (\<forall>r \<in> set rs1. fst r \<noteq> kAndroidMediaErrorNotConnected)"
    by blast
  from Cons.IH [OF a] obtain rs2 where
    r2: "m_running s' = m_running s1" "callback_results s' = callback_results s1 @ rs2"
      "m_running s1 \<longrightarrow> (\<forall>r \<in> set rs2. fst r \<noteq> kAndroidMediaErrorNotConnected)"
    by blast
  have "callback_results s' = callback_results s @ (rs1 @ rs2)"
    using r1 r2 by simp
  moreover have "m_running s \<longrightarrow> (\<forall>r \<in> set (rs1 @ rs2). fst r \<noteq> kAndroidMediaErrorNotConnected)"
    using r1 r2 by auto
  ultimately show ?case using r1 r2 by blast
qed

text \<open>
  Claim C3. On a configured encoder that is not running, \<open>Start\<close> sets the running flag and
  only then calls the runtime: the runtime's start call, and every callback it invokes
  before it returns, runs with the flag set, so no pull-read among them answers
  not-connected. When the runtime fails to start, \<open>Start\<close> fails and the flag is false
  again; when it succeeds, \<open>Start\<close> succeeds, the flag is set and the reporter has received
  one more notification, a started event.
\<close>

theorem start_sets_running_first:
  assumes "m_encoder s = Some encoder" and "\<not> m_running s"
    and "invoke_all ck during (runtime (CodecSourceStart encoder) (s\<lparr>m_running := True\<rparr>)) = Some s1"
  shows "m_running s1
    \<and> (\<forall>r \<in> set (drop (length (callback_results s)) (callback_results s1)).
          fst r \<noteq> kAndroidMediaErrorNotConnected)
    \<and> Start ck during False s
        = Some (False, (AC_ERROR ''Failed to start encoder'' s1)\<lparr>m_running := False\<rparr>)
    \<and> \<not> m_running (snd (the (Start ck during False s)))
    \<and> Start ck during True s = Some (True, s1\<lparr>m_report := m_report s1 @ [Started]\<rparr>)
    \<and> m_running (snd (the (Start ck during True s)))"
proof -
  let ?s0 = "runtime (CodecSourceStart encoder) (s\<lparr>m_running := True\<rparr>)"
  have s0: "m_running ?s0" "callback_results ?s0 = callback_results s"
    by (simp_all add: runtime_def)
  from invoke_all_running [OF assms(3)] s0 obtain rs where
    r: "m_running s1" "callback_results s1 = callback_results s @ rs"
      "\<forall>r \<in> set rs. fst r \<noteq> kAndroidMediaErrorNotConnected"
    by auto
  have "drop (length (callback_results s)) (callback_results s1) = rs"
    using r(2) by simp
  with r assms show ?thesis
    by (simp add: Start_def AC_ERROR_def)
qed


theorem start_sets_running_first_witness:
  "Start UnsignedChar [SourceStart, SourceRead True None] True (configured_encoder False) \<noteq> None
   \<and> fst (the (Start UnsignedChar [SourceStart, SourceRead True None] True (configured_encoder False)))
   \<and> m_report (snd (the (Start UnsignedChar [SourceStart, SourceRead True None] True
         (configured_encoder False)))) = [Started]
   \<and> \<not> m_running (snd (the (Start UnsignedChar [SourceStart, SourceRead True None] False
         (configured_encoder False))))
   \<and> kAndroidMediaErrorNotConnected \<notin> fst ` set (callback_results (the (invoke_all UnsignedChar
         [SourceStart, SourceRead True None]
         (runtime (CodecSourceStart 4) ((configured_encoder False)\<lparr>m_running := True\<rparr>)))))"
proof -
  let ?d = "[SourceStart, SourceRead True None]"
  let ?s = "configured_encoder False"
  let ?i = "invoke_all UnsignedChar ?d (runtime (CodecSourceStart 4) (?s\<lparr>m_running := True\<rparr>))"
  have e: "m_encoder ?s = Some 4" "\<not> m_running ?s" "callback_results ?s = []" "m_report ?s = []"
    by (simp_all add: configured_encoder_eval new_encoder_def new_H264Encoder_def)
  have "?i \<noteq> None"
    by (simp add: configured_encoder_eval new_encoder_def new_H264Encoder_def runtime_def
        handed_back_def OnSourceRead_def BufferQueue_Next_def)
  then have i: "?i = Some (the ?i)" by simp
  have m: "m_report (the ?i) = []"
    by (simp add: configured_encoder_eval new_encoder_def new_H264Encoder_def runtime_def
        handed_back_def OnSourceRead_def BufferQueue_Next_def)
  note t = start_sets_running_first [OF e(1,2) i]
  have "\<forall>r \<in> set (callback_results (the ?i)). fst r \<noteq> kAndroidMediaErrorNotConnected"
    using t [THEN conjunct2, THEN conjunct1] e(3) by simp
  then have "kAndroidMediaErrorNotConnected \<notin> fst ` set (callback_results (the ?i))"
    by auto
  moreover have "Start UnsignedChar ?d True ?s = Some (True, (the ?i)\<lparr>m_report := m_report (the ?i) @ [Started]\<rparr>)"
    using t by blast
  moreover have "\<not> m_running (snd (the (Start UnsignedChar ?d False ?s)))"
    using t by blast
  ultimately show ?thesis using m by simp
qed

section \<open>Configuring twice, and failing to configure\<close>

lemma Configure_failure:
  assumes "Configure env config s = (False, s')"
  shows "s'\<lparr>logged := logged s, runtime_calls := runtime_calls s\<rparr> = s"
  using assms
  by (auto simp: Configure_def AC_ERROR_def runtime_def split: if_splits option.splits)

lemma Configure_success_encoder:
  assumes "Configure env config s = (True, s')"
  shows "m_encoder s' \<noteq> None \<and> m_config s' = config"
  using assms by (auto simp: Configure_def split: if_splits option.splits)

text \<open>
  Claim C4. After a successful \<open>Configure\<close>, a second \<open>Configure\<close> (whatever the runtime
  answers, whatever the configuration) fails and changes nothing: the configuration stored
  by the first call and the encoder handle stay. A \<open>Configure\<close> that fails, because the
  encoder is already configured or because the runtime fails to create an object, leaves the
  stored configuration, the format, the source format and the encoder handle as they were;
  the encoder differs from before at most by the errors logged and the releases made.
\<close>

theorem configure_twice_fails:
  "(Configure env config s = (True, s1) \<longrightarrow>
      Configure env' config' s1 = (False, s1) \<and> m_config s1 = config \<and> m_encoder s1 \<noteq> None)
   \<and> (Configure env config s = (False, s2) \<longrightarrow>
        m_config s2 = m_config s \<and> m_format s2 = m_format s
        \<and> m_source_format s2 = m_source_format s \<and> m_encoder s2 = m_encoder s
        \<and> s2\<lparr>logged := logged s, runtime_calls := runtime_calls s\<rparr> = s)"
proof (intro conjI impI)
  assume c: "Configure env config s = (True, s1)"
  then show "m_config s1 = config" and e: "m_encoder s1 \<noteq> None"
    using Configure_success_encoder by blast+
  then show "Configure env' config' s1 = (False, s1)"
    by (simp add: Configure_def)
next
  assume "Configure env config s = (False, s2)"
  then have u: "s2\<lparr>logged := logged s, runtime_calls := runtime_calls s\<rparr> = s"
    by (rule Configure_failure)
  then show "s2\<lparr>logged := logged s, runtime_calls := runtime_calls s\<rparr> = s" .
  have "m_config (s2\<lparr>logged := logged s, runtime_calls := runtime_calls s\<rparr>) = m_config s"
    "m_format (s2\<lparr>logged := logged s, runtime_calls := runtime_calls s\<rparr>) = m_format s"
    "m_source_format (s2\<lparr>logged := logged s, runtime_calls := runtime_calls s\<rparr>) = m_source_format s"
    "m_encoder (s2\<lparr>logged := logged s, runtime_calls := runtime_calls s\<rparr>) = m_encoder s"
    by (simp_all only: u)
  then show "m_config s2 = m_config s" "m_format s2 = m_format s"
    "m_source_format s2 = m_source_format s" "m_encoder s2 = m_encoder s"
    by simp_all
qed

lemma configured_ok: "Configure runtime_ok scenario_config (new_encoder r) = (True, configured_encoder r)"
  by (simp add: configured_encoder_def Configure_def runtime_ok_def new_encoder_def new_H264Encoder_def)

lemma no_codec_fails: "fst (Configure runtime_no_codec scenario_config (new_encoder r)) = False"
  by (simp add: Configure_def runtime_no_codec_def runtime_ok_def new_encoder_def new_H264Encoder_def)

theorem configure_twice_fails_witness:
  "Configure runtime_ok scenario_config (configured_encoder False) = (False, configured_encoder False)
   \<and> m_config (configured_encoder False) = scenario_config
   \<and> m_encoder (snd (Configure runtime_no_codec scenario_config (new_encoder False))) = None
   \<and> m_format (snd (Configure runtime_no_codec scenario_config (new_encoder False))) = None"
proof -
  have f: "Configure runtime_no_codec scenario_config (new_encoder False)
        = (False, snd (Configure runtime_no_codec scenario_config (new_encoder False)))"
    using no_codec_fails [of False] by (simp add: prod_eq_iff)
  have n: "m_encoder (new_encoder False) = None" "m_format (new_encoder False) = None"
    by (simp_all add: new_encoder_def new_H264Encoder_def)
  from configure_twice_fails [where env = runtime_ok and config = scenario_config
      and s = "new_encoder False" and ?s1.0 = "configured_encoder False"
      and env' = runtime_ok and config' = scenario_config]
    configure_twice_fails [where env = runtime_no_codec and config = scenario_config
      and s = "new_encoder False"
      and ?s2.0 = "snd (Configure runtime_no_codec scenario_config (new_encoder False))"]
    configured_ok [of False] f n
  show ?thesis by simp
qed

section \<open>Packing a buffer that does not fit\<close>

text \<open>
  Claim C5. Packing fails when the buffer does not fit the mode: in readout mode a buffer
  with a native handle or of length zero, in zero-copy mode a buffer without a native
  handle; and it fails when the runtime cannot allocate a buffer. Whenever it fails it
  returns no packed buffer and terminates normally: nothing is added to the pending set,
  no runtime buffer is created, and the encoder changes only by one warning in its log.
\<close>

theorem packing_enforces_mode:
  "(m_readout s \<and> (NativeHandle input_buffer \<noteq> None \<or> Length input_buffer = 0)
      \<longrightarrow> packing_fails (m_readout s) created input_buffer)
   \<and> (\<not> m_readout s \<and> NativeHandle input_buffer = None
      \<longrightarrow> packing_fails (m_readout s) created input_buffer)
   \<and> packing_fails (m_readout s) None input_buffer
   \<and> (packing_fails (m_readout s) created input_buffer \<longrightarrow>
        (\<exists>msg s'. PackBuffer ck created input_buffer timestamp s = Some (None, s')
           \<and> s' = AC_WARNING msg s
           \<and> m_pending_buffers s' = m_pending_buffers s
           \<and> media_buffers s' = media_buffers s
           \<and> logged s' = logged s @ [(Warning, msg)]
           \<and> s'\<lparr>logged := logged s\<rparr> = s))"
proof (intro conjI impI)
  assume "packing_fails (m_readout s) created input_buffer"
  then obtain msg where
    "PackBuffer ck created input_buffer timestamp s = Some (None, AC_WARNING msg s)"
    using PackBuffer_fails by blast
  then show "\<exists>msg s'. PackBuffer ck created input_buffer timestamp s = Some (None, s')
           \<and> s' = AC_WARNING msg s
           \<and> m_pending_buffers s' = m_pending_buffers s
           \<and> media_buffers s' = media_buffers s
           \<and> logged s' = logged s @ [(Warning, msg)]
           \<and> s'\<lparr>logged := logged s\<rparr> = s"
    by (simp add: AC_WARNING_def)
qed (simp_all add: packing_fails_def)

theorem packing_enforces_mode_witness:
  "PackBuffer SignedChar (Some (9, \<lambda>a. 0)) handle_buffer 1000 (running_encoder True)
     = Some (None, AC_WARNING ''Could not allocate media buffer'' (running_encoder True))
   \<and> PackBuffer SignedChar (Some (9, \<lambda>a. 0)) pixel_buffer 2000 (running_encoder False)
     = Some (None, AC_WARNING ''Could not allocate media buffer'' (running_encoder False))
   \<and> fst (the (PackBuffer SignedChar None handle_buffer 1000 (running_encoder False))) = None
   \<and> m_pending_buffers (snd (the (PackBuffer SignedChar None handle_buffer 1000 (running_encoder False)))) = []"
proof -
  let ?a = "Some (9, \<lambda>a. 0) :: allocation option"
  have r: "m_readout (running_encoder True)" "\<not> m_readout (running_encoder False)"
    "m_pending_buffers (running_encoder False) = []"
    by (simp_all add: running_encoder_eval configured_encoder_def Configure_def runtime_ok_def
        new_encoder_def new_H264Encoder_def)
  have b: "NativeHandle handle_buffer \<noteq> None" "NativeHandle pixel_buffer = None"
    by (simp_all add: handle_buffer_def pixel_buffer_def)
  note t1 = packing_enforces_mode [where s = "running_encoder True" and input_buffer = handle_buffer
      and created = ?a and ck = SignedChar and timestamp = 1000]
  note t2 = packing_enforces_mode [where s = "running_encoder False" and input_buffer = pixel_buffer
      and created = ?a and ck = SignedChar and timestamp = 2000]
  note t3 = packing_enforces_mode [where s = "running_encoder False" and input_buffer = handle_buffer
      and created = None and ck = SignedChar and timestamp = 1000]
  have "\<exists>msg. PackBuffer SignedChar ?a handle_buffer 1000 (running_encoder True)
            = Some (None, AC_WARNING msg (running_encoder True))"
    using t1 r b by blast
  then have 1: "PackBuffer SignedChar ?a handle_buffer 1000 (running_encoder True)
     = Some (None, AC_WARNING ''Could not allocate media buffer'' (running_encoder True))"
    by (auto simp: PackBuffer_def r b)
  have "\<exists>msg. PackBuffer SignedChar ?a pixel_buffer 2000 (running_encoder False)
            = Some (None, AC_WARNING msg (running_encoder False))"
    using t2 r b by blast
  then have 2: "PackBuffer SignedChar ?a pixel_buffer 2000 (running_encoder False)
     = Some (None, AC_WARNING ''Could not allocate media buffer'' (running_encoder False))"
    by (auto simp: PackBuffer_def r b)
  have "\<exists>msg s'. PackBuffer SignedChar None handle_buffer 1000 (running_encoder False) = Some (None, s')
      \<and> m_pending_buffers s' = m_pending_buffers (running_encoder False)"
    using t3 by blast
  then have 3: "fst (the (PackBuffer SignedChar None handle_buffer 1000 (running_encoder False))) = None
    \<and> m_pending_buffers (snd (the (PackBuffer SignedChar None handle_buffer 1000 (running_encoder False)))) = []"
    using r(3) by auto
  from 1 2 3 show ?thesis by blast
qed

section \<open>The color conversion\<close>


lemma raster_less:
  assumes "k' < w" and "j' < j \<or> (j' = j \<and> k' < k)"
  shows "j' * w + k' < j * w + (k :: nat)"
proof (cases "j' < j")
  case True
  then have "Suc j' \<le> j" by simp
  then have "Suc j' * w \<le> j * w" by (rule mult_le_mono1)
  with assms(1) show ?thesis by simp
next
  case False
  with assms show ?thesis by simp
qed


lemma raster_inject:
  assumes "k < w" and "k' < w" and "j * w + k = j' * w + (k' :: nat)"
  shows "j = j' \<and> k = k'"
proof -
  have "\<not> j < j'" using raster_less [of k w j j' k'] assms by auto
  moreover have "\<not> j' < j" using raster_less [of k' w j' j k] assms by auto
  ultimately have "j = j'" by simp
  with assms show ?thesis by simp
qed






























section \<open>The macroblock count of the intra refresh\<close>

lemma map_of_set_int32:
  "map_of (media_message_set_int32 k v m) = (map_of m)(k \<mapsto> Int32Value v)"
  by (simp add: media_message_set_int32_def update_conv')

lemmas format_keys =
  kFormatKeyIntraRefreshCIRMbs_def kFormatKeyIFrameInterval_def kFormatKeyProfileIdc_def
  kFormatKeyLevelIdc_def kFormatKeyConstraintSet_def kFormatKeyPrependSpsPpstoIdrFrames_def

lemma build_format_mbs:
  "map_of (build_format r c config) kFormatKeyIntraRefreshCIRMbs
     = Some (Int32Value (intra_refresh_mbs config))"
  unfolding build_format_def Let_def
  by (simp add: map_of_set_int32 format_keys)

lemma ceiling_div16: "\<lceil>real n / 16\<rceil> = int ((n + 15) div 16)"
proof -
  have "\<lceil>real n / 16\<rceil> = - \<lfloor>- real n / 16\<rfloor>" by (simp add: ceiling_def)
  also have "- real n / 16 = real_of_int (- int n) / real_of_int 16" by simp
  also have "\<lfloor>real_of_int (- int n) / real_of_int 16\<rfloor> = (- int n) div 16"
    by (rule floor_divide_of_int_eq)
  finally show ?thesis by linarith
qed

lemma spec_mbs_eq:
  "spec_intra_refresh_mbs w h = int ((((w + 15) div 16) * ((h + 15) div 16) * 10) div 100)"
proof -
  let ?m = "((w + 15) div 16) * ((h + 15) div 16)"
  have "of_int (\<lceil>real w / 16\<rceil> * \<lceil>real h / 16\<rceil>) * (10 / 100 :: real)
          = real_of_int (int (?m * 10)) / real_of_int 100"
    by (simp add: ceiling_div16)
  then have "spec_intra_refresh_mbs w h = \<lfloor>real_of_int (int (?m * 10)) / real_of_int 100\<rfloor>"
    by (simp only: spec_intra_refresh_mbs_def)
  also have "\<dots> = int (?m * 10) div 100" by (rule floor_divide_of_int_eq)
  finally show ?thesis by (simp add: zdiv_int)
qed

lemma unat_ceil16:
  fixes w :: uint32
  assumes "unat w + 15 < 2 ^ 32"
  shows "unat ((w + 15) div 16) = (unat w + 15) div 16"
proof -
  have "unat (w + 15) = unat w + 15"
    using assms by (simp add: unat_add_lem [THEN iffD1])
  then show ?thesis by (simp add: unat_div)
qed

lemma mbs_unat:
  fixes w h :: uint32
  assumes w: "unat w + 15 < 2 ^ 32" and h: "unat h + 15 < 2 ^ 32"
    and m: "((unat w + 15) div 16) * ((unat h + 15) div 16) * 10 < 2 ^ 32"
  shows "unat ((((w + 15) div 16) * ((h + 15) div 16) * 10) div 100)
           = (((unat w + 15) div 16) * ((unat h + 15) div 16) * 10) div 100"
proof -
  let ?a = "(w + 15) div 16" and ?b = "(h + 15) div 16"
  let ?A = "(unat w + 15) div 16" and ?B = "(unat h + 15) div 16"
  have a: "unat ?a = ?A" and b: "unat ?b = ?B"
    using w h by (simp_all add: unat_ceil16)
  define P where "P = ?A * ?B"
  have P: "P * 10 < 2 ^ 32" using m by (simp add: P_def)
  then have "P < 2 ^ 32" by simp
  then have "unat ?a * unat ?b < 2 ^ LENGTH(32)" by (simp add: a b P_def)
  then have ab: "unat (?a * ?b) = P"
    by (simp add: unat_mult_lem [THEN iffD1] a b P_def)
  have "unat (?a * ?b) * unat (10 :: uint32) < 2 ^ LENGTH(32)"
    using P
    by (simp add: ab)
  then have "unat (?a * ?b * 10) = P * 10"
    by (simp add: unat_mult_lem [THEN iffD1] ab)
  then show ?thesis by (simp add: unat_div P_def)
qed

lemma sint_small:
  fixes x :: uint32
  assumes "unat x < 2 ^ 31"
  shows "sint x = int (unat x)"
proof -
  have "uint x < 2 ^ 31" using assms by transfer simp
  moreover have "- (2 ^ 31) \<le> uint x" by (rule order_trans [of _ 0]) simp_all
  ultimately have "signed_take_bit 31 (uint x) = uint x"
    by (simp add: signed_take_bit_int_eq_self)
  then show ?thesis by (simp add: sint_uint)
qed

lemma Configure_success_format:
  assumes "Configure env config s = (True, s')"
  shows "\<exists>format. m_format s'
           = Some (format, build_format (m_readout s) (colorformat_property env) config)"
  using assms by (auto simp: Configure_def split: if_splits option.splits)

text \<open>
  Claim C7, amended. A successful \<open>Configure\<close> stores, under the key of the cyclic intra
  refresh, the count \<open>intra_refresh_mbs\<close>. Whenever width + 15, height + 15 and ten times
  the product of the macroblock columns and rows are below 2 to the power 32, that count is
  the specification's: the macroblock columns times the macroblock rows (each rounded up),
  times 10 percent, in whole numbers. For 1280 by 720 the count is 360.
\<close>

theorem configure_intra_refresh_macroblocks:
  assumes "Configure env config s = (True, s')"
    and "unat (width config) + 15 < 2 ^ 32" and "unat (height config) + 15 < 2 ^ 32"
    and "((unat (width config) + 15) div 16) * ((unat (height config) + 15) div 16) * 10 < 2 ^ 32"
  shows "\<exists>format message. m_format s' = Some (format, message)
           \<and> map_of message kFormatKeyIntraRefreshCIRMbs
               = Some (Int32Value (intra_refresh_mbs config))
           \<and> sint (intra_refresh_mbs config)
               = spec_intra_refresh_mbs (unat (width config)) (unat (height config))
           \<and> (width config = 1280 \<and> height config = 720 \<longrightarrow> intra_refresh_mbs config = 360)"
proof -
  define P where "P = ((unat (width config) + 15) div 16) * ((unat (height config) + 15) div 16) * 10"
  have u: "unat (intra_refresh_mbs config) = P div 100"
    unfolding intra_refresh_mbs_def P_def using assms(2-4) by (rule mbs_unat)
  have "P < 2 ^ 32" using assms(4) by (simp add: P_def)
  then have "P div 100 < 2 ^ 31" by simp
  then have "sint (intra_refresh_mbs config) = int (P div 100)"
    using u by (simp add: sint_small)
  then have s: "sint (intra_refresh_mbs config)
      = spec_intra_refresh_mbs (unat (width config)) (unat (height config))"
    by (simp add: spec_mbs_eq P_def)
  have c: "width config = 1280 \<and> height config = 720 \<longrightarrow> intra_refresh_mbs config = 360"
    by (simp add: intra_refresh_mbs_def)
  from Configure_success_format [OF assms(1)] build_format_mbs s c show ?thesis by blast
qed

text \<open>
  The claim as it was worded has no bound on the size. For a width and a height of
  1048576 pixels there are 65536 macroblock columns and as many rows; their product is 2
  to the power 32, which is 0 in 32-bit arithmetic. \<open>Configure\<close> succeeds and stores the
  count 0, where the formula gives 429496729. For a width of 4294967295 pixels and a
  height of 16, width + 15 is 14 in 32-bit arithmetic; the count stored is 0 again, where
  the formula gives 26843545.
\<close>

theorem configure_intra_refresh_macroblocks_counterexample:
  "fst (Configure runtime_ok (frame_config 1048576 1048576) (new_encoder False))
   \<and> map_option (\<lambda>format. map_of (snd format) kFormatKeyIntraRefreshCIRMbs)
        (m_format (snd (Configure runtime_ok (frame_config 1048576 1048576) (new_encoder False))))
       = Some (Some (Int32Value 0))
   \<and> spec_intra_refresh_mbs 1048576 1048576 = 429496729
   \<and> fst (Configure runtime_ok (frame_config 4294967295 16) (new_encoder False))
   \<and> map_option (\<lambda>format. map_of (snd format) kFormatKeyIntraRefreshCIRMbs)
        (m_format (snd (Configure runtime_ok (frame_config 4294967295 16) (new_encoder False))))
       = Some (Some (Int32Value 0))
   \<and> spec_intra_refresh_mbs 4294967295 16 = 26843545"
proof -
  have "intra_refresh_mbs (frame_config 1048576 1048576) = 0"
    "intra_refresh_mbs (frame_config 4294967295 16) = 0"
    by (simp_all add: intra_refresh_mbs_def frame_config_def)
  then show ?thesis
    by (simp add: Configure_def runtime_ok_def new_encoder_def new_H264Encoder_def
        build_format_mbs spec_mbs_eq)
qed

theorem configure_intra_refresh_macroblocks_witness:
  "\<exists>format message.
     m_format (snd (Configure runtime_ok scenario_config (new_H264Encoder scenario_config True False)))
       = Some (format, message)
     \<and> map_of message kFormatKeyIntraRefreshCIRMbs = Some (Int32Value 360)
     \<and> spec_intra_refresh_mbs 1280 720 = 360"
proof -
  let ?s = "new_H264Encoder scenario_config True False"
  have c: "Configure runtime_ok scenario_config ?s
             = (True, snd (Configure runtime_ok scenario_config ?s))"
    by (simp add: Configure_def runtime_ok_def new_H264Encoder_def)
  have w: "unat (width scenario_config) + 15 < 2 ^ 32"
    "unat (height scenario_config) + 15 < 2 ^ 32"
    "((unat (width scenario_config) + 15) div 16) * ((unat (height scenario_config) + 15) div 16) * 10
       < 2 ^ 32"
    by (simp_all add: scenario_config_def)
  have v: "width scenario_config = 1280" "height scenario_config = 720"
    by (simp_all add: scenario_config_def)
  from configure_intra_refresh_macroblocks [OF c w] v show ?thesis by auto
qed

section \<open>The running flag as a gate\<close>

text \<open>
  Claim C8. While the running flag is false: \<open>Start\<close> on an encoder that was never
  configured (a new encoder in particular) fails and leaves the encoder as it is, the flag
  included; \<open>Stop\<close> fails and changes nothing; \<open>Execute\<close> fails and changes nothing but
  the log, to which it adds one error; \<open>QueueBuffer\<close> changes nothing, so the queue does not
  grow and the reporter is not notified; and the pull-read callback answers not-connected
  and changes nothing.
\<close>

theorem not_running_is_gated:
  assumes "\<not> m_running s"
  shows "(m_encoder s = None \<longrightarrow> Start ck during started s = Some (False, s))
    \<and> Start ck during started (new_H264Encoder default_config delegate readout)
        = Some (False, new_H264Encoder default_config delegate readout)
    \<and> Stop stopped s = (False, s)
    \<and> Execute initial unit_read s
        = (False, AC_ERROR ''Tried to execute encoder while not started'' s)
    \<and> (AC_ERROR ''Tried to execute encoder while not started'' s)\<lparr>logged := logged s\<rparr> = s
    \<and> QueueBuffer b s = s
    \<and> length (m_input_queue (QueueBuffer b s)) \<le> length (m_input_queue s)
    \<and> m_report (QueueBuffer b s) = m_report s
    \<and> OnSourceRead ck thiz slot created s = Some (kAndroidMediaErrorNotConnected, None, s)"
  using assms
  by (simp add: Start_def Stop_def Execute_def QueueBuffer_def OnSourceRead_def AC_ERROR_def
      new_H264Encoder_def split: option.split)

theorem not_running_is_gated_witness:
  "Start UnsignedChar [SourceRead True None] True (new_encoder False) = Some (False, new_encoder False)
   \<and> Stop True (configured_encoder False) = (False, configured_encoder False)
   \<and> fst (Execute 0 None (configured_encoder False)) = False
   \<and> QueueBuffer handle_buffer (configured_encoder False) = configured_encoder False"
proof -
  have n: "\<not> m_running (new_encoder False)" "m_encoder (new_encoder False) = None"
    by (simp_all add: new_encoder_def new_H264Encoder_def)
  have c: "\<not> m_running (configured_encoder False)"
    by (simp add: configured_encoder_def Configure_def runtime_ok_def new_encoder_def new_H264Encoder_def)
  from not_running_is_gated [OF n(1), of UnsignedChar "[SourceRead True None]" True] n(2)
    not_running_is_gated [OF c, of _ _ _ _ _ _ True 0 None handle_buffer]
  show ?thesis by simp
qed

section \<open>Stopping\<close>

text \<open>
  Claim C9. \<open>Stop\<close> on a configured, running encoder asks the runtime to stop; when the
  runtime succeeds, \<open>Stop\<close> succeeds, clears the running flag and notifies the reporter
  of one stopped event. A second \<open>Stop\<close> right after it fails and changes nothing, so the
  reporter has received exactly one more stopped notification after both calls. When the
  runtime fails to stop, \<open>Stop\<close> fails and the flag stays.
\<close>

theorem stop_twice:
  assumes "m_encoder s = Some encoder" and "m_running s"
  shows "Stop True s = (True, s\<lparr>runtime_calls := runtime_calls s @ [CodecSourceStop encoder],
                                 m_running := False, m_report := m_report s @ [Stopped]\<rparr>)
    \<and> \<not> m_running (snd (Stop True s))
    \<and> Stop stopped (snd (Stop True s)) = (False, snd (Stop True s))
    \<and> count_list (m_report (snd (Stop stopped (snd (Stop True s))))) Stopped
        = count_list (m_report s) Stopped + 1
    \<and> Stop False s = (False, s\<lparr>runtime_calls := runtime_calls s @ [CodecSourceStop encoder]\<rparr>)"
  using assms by (simp add: Stop_def runtime_def)

theorem stop_twice_witness:
  "Stop True (snd (Stop True (running_encoder False))) = (False, snd (Stop True (running_encoder False)))
   \<and> fst (Stop True (running_encoder False))
   \<and> count_list (m_report (snd (Stop True (snd (Stop True (running_encoder False)))))) Stopped = 1"
proof -
  have r: "m_encoder (running_encoder False) = Some 4" "m_running (running_encoder False)"
    "m_report (running_encoder False) = [Started]"
    by (simp_all add: running_encoder_def Start_def runtime_def configured_encoder_def
        Configure_def runtime_ok_def new_encoder_def new_H264Encoder_def)
  note t = stop_twice [OF r(1,2), of True]
  have "fst (Stop True (running_encoder False))"
    using t [THEN conjunct1] by simp
  moreover have "count_list (m_report (snd (Stop True (snd (Stop True (running_encoder False)))))) Stopped = 1"
    using t [THEN conjunct2, THEN conjunct2, THEN conjunct2, THEN conjunct1] r(3) by simp
  ultimately show ?thesis
    using t [THEN conjunct2, THEN conjunct2, THEN conjunct1] by blast
qed

section \<open>A pull-read whose packing fails\<close>

lemma released_after_return:
  "set (released (OnBufferReturned thiz mb s)) \<subseteq> set (released s) \<union> buffer ` set (m_pending_buffers s)"
proof (cases "find_pending mb (m_pending_buffers s)")
  case None
  then show ?thesis by (simp add: OnBufferReturned_def AC_WARNING_def)
next
  case (Some n)
  from find_pending_Some [OF Some] have "m_pending_buffers s ! n \<in> set (m_pending_buffers s)"
    by simp
  with Some show ?thesis
    by (auto simp: OnBufferReturned_def Let_def runtime_def)
qed

text \<open>
  Claim C10. When the pull-read callback has popped a buffer and packing it fails (the
  buffer does not fit the mode, or the allocation fails), the callback answers
  end-of-stream, which is also its answer on an empty queue. The popped buffer is gone
  from the queue and is not put back; the pending set, the released buffers and the
  reporter's notifications are as before, and a buffer-returned callback that follows can
  release only buffers that were pending before.
\<close>

theorem failed_packing_ends_stream:
  assumes "m_running s" and "m_input_queue s = input_buffer # rest"
    and "packing_fails (m_readout s) created input_buffer"
  shows "\<exists>msg s'. OnSourceRead ck True True created s = Some (kAndroidMediaErrorEndOfStream, None, s')
           \<and> s' = AC_WARNING msg (s\<lparr>m_input_queue := rest\<rparr>)
           \<and> OnSourceRead ck True True created (s\<lparr>m_input_queue := []\<rparr>)
               = Some (kAndroidMediaErrorEndOfStream, None, s\<lparr>m_input_queue := []\<rparr>)
           \<and> m_input_queue s' = rest
           \<and> m_pending_buffers s' = m_pending_buffers s
           \<and> released s' = released s
           \<and> m_report s' = m_report s
           \<and> (\<forall>mb. set (released (OnBufferReturned True mb s'))
                  \<subseteq> set (released s) \<union> buffer ` set (m_pending_buffers s))"
proof -
  let ?s = "s\<lparr>m_input_queue := rest\<rparr>"
  from assms(3) have "packing_fails (m_readout ?s) created input_buffer" by simp
  from PackBuffer_fails [OF this] obtain msg where
    p: "PackBuffer ck created input_buffer (Timestamp input_buffer) ?s = Some (None, AC_WARNING msg ?s)"
    by blast
  let ?s' = "AC_WARNING msg ?s"
  have 1: "OnSourceRead ck True True created s = Some (kAndroidMediaErrorEndOfStream, None, ?s')"
    using assms(1,2) p by (simp add: OnSourceRead_def BufferQueue_Next_def)
  have 2: "OnSourceRead ck True True created (s\<lparr>m_input_queue := []\<rparr>)
               = Some (kAndroidMediaErrorEndOfStream, None, s\<lparr>m_input_queue := []\<rparr>)"
    using assms(1) by (simp add: OnSourceRead_def BufferQueue_Next_def)
  have 3: "m_input_queue ?s' = rest" "m_pending_buffers ?s' = m_pending_buffers s"
    "released ?s' = released s" "m_report ?s' = m_report s"
    by (simp_all add: AC_WARNING_def)
  have 4: "\<forall>mb. set (released (OnBufferReturned True mb ?s'))
                  \<subseteq> set (released s) \<union> buffer ` set (m_pending_buffers s)"
    using released_after_return [of True _ ?s'] 3 by simp
  from 1 2 3 4 show ?thesis by blast
qed


theorem failed_packing_ends_stream_witness:
  "fst (the (OnSourceRead UnsignedChar True True None
               (QueueBuffer handle_buffer (running_encoder False)))) = - 1011
   \<and> m_input_queue (snd (snd (the (OnSourceRead UnsignedChar True True None
               (QueueBuffer handle_buffer (running_encoder False)))))) = []
   \<and> m_pending_buffers (snd (snd (the (OnSourceRead UnsignedChar True True None
               (QueueBuffer handle_buffer (running_encoder False)))))) = []
   \<and> released (snd (snd (the (OnSourceRead UnsignedChar True True None
               (QueueBuffer handle_buffer (running_encoder False)))))) = []"
proof -
  let ?s = "QueueBuffer handle_buffer (running_encoder False)"
  have r: "m_running ?s" "m_input_queue ?s = handle_buffer # []"
    "m_pending_buffers ?s = []" "released ?s = []"
    by (simp_all add: QueueBuffer_def BufferQueue_Push_def running_encoder_eval
        configured_encoder_eval new_encoder_def new_H264Encoder_def)
  have f: "packing_fails (m_readout ?s) None handle_buffer"
    by (simp add: packing_fails_def)
  from failed_packing_ends_stream [OF r(1,2) f, of UnsignedChar] obtain s' where
    "OnSourceRead UnsignedChar True True None ?s = Some (kAndroidMediaErrorEndOfStream, None, s')"
    "m_input_queue s' = []" "m_pending_buffers s' = m_pending_buffers ?s" "released s' = released ?s"
    by blast
  with r(3,4) show ?thesis
    by (simp add: kAndroidMediaErrorEndOfStream_def kAndroidMediaErrorBase_def)
qed

end
